theory Spec2Isabelle
  imports Main
begin

section \<open>The Binance wallet adapter (src/utils/walletApi/binance.js)\<close>

text \<open>
  The adapter sits between a browser-injected wallet provider and the bridge application.
  Its collaborators (the Vuex store, the amount convertors, the \<open>WalletError\<close> class, the
  chain codecs and the web3 library) are imported by the module and are not part of it;
  they enter the model as the fields of an environment record, so that every theorem holds
  for whatever these collaborators compute.
\<close>

subsection \<open>Errors\<close>

text \<open>
  \<open>WalletError.CODES\<close> as the module uses it, and the errors the module throws and
  catches: a plain \<open>Error\<close> object with its message, or a \<open>WalletError\<close> built by
  \<open>new WalletError(message, { code, cause })\<close>. Both kinds of object have a message
  string; a thrown value that is no error object is outside the model.
\<close>

datatype wallet_code = UNKNOWN_ERROR | USER_REJECTED | INSUFFICIENT_FUNDS

datatype js_error =
    Error (message: string)
  | WalletError (message: string) (code: wallet_code) (cause: "js_error option")

fun instanceof_WalletError :: "js_error \<Rightarrow> bool" where
  "instanceof_WalletError (WalletError m c e) = True"
| "instanceof_WalletError (Error m) = False"

text \<open>\<open>String.prototype.startsWith\<close> and \<open>String.prototype.includes\<close> on strings.\<close>

fun startsWith :: "string \<Rightarrow> string \<Rightarrow> bool" where
  "startsWith s [] = True"
| "startsWith [] (p # ps) = False"
| "startsWith (c # cs) (p # ps) = (c = p \<and> startsWith cs ps)"

fun str_includes :: "string \<Rightarrow> string \<Rightarrow> bool" where
  "str_includes [] p = (p = [])"
| "str_includes (c # cs) p = (startsWith (c # cs) p \<or> str_includes cs p)"

text \<open>
  \<^verbatim>\<open>
  function convertWalletError(error) {
    if (error instanceof WalletError) { return error; }
    let code = WalletError.CODES.UNKNOWN_ERROR;
    if (error.message.includes('Rejected by user')) {
      code = WalletError.CODES.USER_REJECTED;
    } else if (error.message.includes('insufficient funds')) {
      code = WalletError.CODES.INSUFFICIENT_FUNDS;
    }
    return new WalletError(error.message, { code, cause: error });
  }
  \<close>
\<close>

definition convertWalletError :: "js_error \<Rightarrow> js_error" where
  "convertWalletError error =
     (if instanceof_WalletError error then error
      else
        let code0 = UNKNOWN_ERROR;
            code1 = (if str_includes (message error) ''Rejected by user'' then USER_REJECTED
                     else if str_includes (message error) ''insufficient funds'' then INSUFFICIENT_FUNDS
                     else code0)
        in WalletError (message error) code1 (Some error))"

text \<open>
  Reading a property of \<open>undefined\<close> throws a \<open>TypeError\<close>; the wording of its message is
  the engine's, and it names the property.
\<close>

definition type_error :: "string \<Rightarrow> js_error" where
  "type_error prop =
     Error (''Cannot read properties of undefined (reading '' @ [CHR 0x27] @ prop @ [CHR 0x27] @ '')'')"

subsection \<open>Outcomes and effects\<close>

text \<open>
  An awaited call returns, throws (its promise rejects) or never settles. A function of the
  module is modelled by the list of calls it makes on its collaborators, in order, and its
  outcome.
\<close>

datatype 'a outcome = Returns 'a | Throws js_error | Hangs

type_synonym chain_id = nat

datatype wallet_name = Binance

datatype abi = Erc20 | Erc721 | EthLock

datatype arg = Str string | Num nat

record send_options =
  tx_from :: string
  tx_value :: string

text \<open>
  The partial state handed to \<open>store.dispatch('updateWallet', ...)\<close>: a key that the object
  literal does not have is \<open>None\<close>; a key that is present holds its value, which may
  itself be \<open>null\<close> or \<open>undefined\<close> (the inner \<open>None\<close>).
\<close>

record wallet_update =
  u_name :: wallet_name
  u_installed :: "bool option"
  u_address :: "string option option"
  u_addressHex :: "string option option"
  u_connected :: "bool option"
  u_chainId :: "chain_id option option"

text \<open>
  The calls that leave the module: \<open>web3.eth.getBalance(address)\<close>,
  \<open>web3.eth.getTransactionReceipt(hash)\<close>, a contract method's \<open>call()\<close> and \<open>send(options)\<close>
  (with the ABI, the contract address, the method and its arguments), \<open>console.log\<close>, and
  \<open>store.dispatch('updateWallet', update)\<close>. A \<open>Send\<close> is recorded when \<open>send\<close> is called,
  whatever web3 then does with it.
\<close>

datatype effect =
    GetBalance string
  | GetTransactionReceipt string
  | Call abi string string "arg list"
  | Send abi string string "arg list" send_options
  | ConsoleLog string
  | Dispatch wallet_update

type_synonym 'a io = "effect list \<times> 'a outcome"

definition return_io :: "'a \<Rightarrow> 'a io" where
  "return_io x = ([], Returns x)"

definition bind_io :: "'a io \<Rightarrow> ('a \<Rightarrow> 'b io) \<Rightarrow> 'b io" where
  "bind_io m f =
     (case snd m of
        Returns x \<Rightarrow> (fst m @ fst (f x), snd (f x))
      | Throws e \<Rightarrow> (fst m, Throws e)
      | Hangs \<Rightarrow> (fst m, Hangs))"

text \<open>A synchronous helper that returns or throws; an awaited promise; a recorded call.\<close>

definition sync :: "js_error + 'a \<Rightarrow> 'a io" where
  "sync r = ([], case r of Inl e \<Rightarrow> Throws e | Inr x \<Rightarrow> Returns x)"

definition await :: "'a outcome \<Rightarrow> 'a io" where
  "await r = ([], r)"

definition perform :: "effect \<Rightarrow> 'a outcome \<Rightarrow> 'a io" where
  "perform c r = ([c], r)"

text \<open>\<^verbatim>\<open>try { ... } catch (error) { throw convertWalletError(error); }\<close>\<close>

definition try_convert :: "'a io \<Rightarrow> 'a io" where
  "try_convert m =
     (case snd m of
        Throws error \<Rightarrow> (fst m, Throws (convertWalletError error))
      | Returns x \<Rightarrow> m
      | Hangs \<Rightarrow> m)"

subsection \<open>Collaborators\<close>

record receipt =
  status :: bool

datatype signal =
    TransactionHash string
  | ErrorSignal js_error
  | Confirmation nat receipt

text \<open>
  The web3 instance bound to the provider: what the node answers to each request.
  \<open>eth_Contract\<close> is the constructor \<open>new web3.eth.Contract(abi, address)\<close>, which may
  refuse its arguments; \<open>methods_send\<close> gives the signals the returned submission emits,
  or the error with which building or sending the call throws at once.
\<close>

record web3 =
  eth_getBalance :: "string \<Rightarrow> string outcome"
  eth_getTransactionReceipt :: "string \<Rightarrow> receipt option outcome"
  eth_Contract :: "abi \<Rightarrow> string \<Rightarrow> js_error option"
  methods_call :: "abi \<Rightarrow> string \<Rightarrow> string \<Rightarrow> arg list \<Rightarrow> string outcome"
  methods_send :: "abi \<Rightarrow> string \<Rightarrow> string \<Rightarrow> arg list \<Rightarrow> send_options \<Rightarrow> js_error + signal list"
  utils_toChecksumAddress :: "string \<Rightarrow> js_error + string"

record token_basic =
  decimals :: nat

record chain =
  lockContractHash :: string
  nftLockContractHash :: string
  nftFeeName :: "string option"

record chain_api =
  addressToHex :: "string \<Rightarrow> js_error + string"

text \<open>
  The module's imports and its module-level variable \<open>web3\<close> (\<open>None\<close> until \<open>init\<close> has
  assigned it). A store getter answers with an object, with \<open>undefined\<close> (\<open>None\<close>), or
  throws. \<open>js_Number\<close> is the coercion \<open>Number(network)\<close>, \<open>None\<close> where the result is
  not a natural number.
\<close>

record env =
  web3 :: "web3 option"
  getChain :: "chain_id \<Rightarrow> js_error + chain option"
  getTokenBasicByChainIdAndTokenHash :: "chain_id \<Rightarrow> string \<Rightarrow> js_error + token_basic option"
  getChainApi :: "chain_id \<Rightarrow> chain_api outcome"
  integerToDecimal :: "string \<Rightarrow> nat \<Rightarrow> js_error + string"
  decimalToInteger :: "string \<Rightarrow> nat \<Rightarrow> js_error + string"
  toStandardHex :: "string \<Rightarrow> js_error + string"
  tryToConvertAddressToHex :: "wallet_name \<Rightarrow> string option \<Rightarrow> string option outcome"
  TARGET_MAINNET :: bool
  ChainId_Bsc :: chain_id
  js_Number :: "string \<Rightarrow> nat option"

text \<open>Member access on a value that may be \<open>undefined\<close>.\<close>

definition member :: "string \<Rightarrow> ('a \<Rightarrow> 'b) \<Rightarrow> 'a option \<Rightarrow> js_error + 'b" where
  "member prop sel obj = (case obj of None \<Rightarrow> Inl (type_error prop) | Some x \<Rightarrow> Inr (sel x))"

definition web3_eth_getBalance :: "web3 option \<Rightarrow> string \<Rightarrow> string io" where
  "web3_eth_getBalance w address =
     (case w of
        None \<Rightarrow> sync (Inl (type_error ''eth''))
      | Some w3 \<Rightarrow> perform (GetBalance address) (eth_getBalance w3 address))"

definition web3_eth_getTransactionReceipt :: "web3 option \<Rightarrow> string \<Rightarrow> receipt option io" where
  "web3_eth_getTransactionReceipt w h =
     (case w of
        None \<Rightarrow> sync (Inl (type_error ''eth''))
      | Some w3 \<Rightarrow> perform (GetTransactionReceipt h) (eth_getTransactionReceipt w3 h))"

text \<open>
  \<open>new web3.eth.Contract(abi, address)\<close>: the callee \<open>web3.eth.Contract\<close> is evaluated
  before the address argument, which may itself throw.
\<close>

record contract =
  c_web3 :: web3
  c_abi :: abi
  c_address :: string

definition new_Contract :: "web3 option \<Rightarrow> abi \<Rightarrow> js_error + string \<Rightarrow> contract io" where
  "new_Contract w a address =
     (case w of
        None \<Rightarrow> sync (Inl (type_error ''eth''))
      | Some w3 \<Rightarrow>
          bind_io (sync address) (\<lambda>addr.
            case eth_Contract w3 a addr of
              Some e \<Rightarrow> sync (Inl e)
            | None \<Rightarrow> return_io \<lparr>c_web3 = w3, c_abi = a, c_address = addr\<rparr>))"

definition method_call :: "contract \<Rightarrow> string \<Rightarrow> arg list \<Rightarrow> string io" where
  "method_call c m args =
     perform (Call (c_abi c) (c_address c) m args)
       (methods_call (c_web3 c) (c_abi c) (c_address c) m args)"

definition method_send :: "contract \<Rightarrow> string \<Rightarrow> arg list \<Rightarrow> send_options \<Rightarrow> signal list io" where
  "method_send c m args opts =
     perform (Send (c_abi c) (c_address c) m args opts)
       (case methods_send (c_web3 c) (c_abi c) (c_address c) m args opts of
          Inl e \<Rightarrow> Throws e
        | Inr sigs \<Rightarrow> Returns sigs)"

subsection \<open>Submissions and \<open>confirmLater\<close>\<close>

text \<open>
  A submission (web3's PromiEvent) is an event emitter. The listeners this module registers
  are the \<open>resolve\<close> and \<open>reject\<close> functions of a promise and the closure \<open>onConfirm\<close>;
  the number they carry is the promise that the call of \<open>confirmLater\<close> created, which
  tells the closures of one call from those of another. A promise, once settled, ignores
  every later \<open>resolve\<close> and \<open>reject\<close>.
\<close>

datatype event_name = ev_transactionHash | ev_error | ev_confirmation

datatype listener = Resolve nat | Reject nat | OnConfirm nat

datatype promise = Unsettled | Fulfilled string | Rejected js_error

record js_state =
  listeners :: "(event_name \<times> listener) list"
  promises :: "promise list"

definition new_submission :: js_state where
  "new_submission = \<lparr>listeners = [], promises = []\<rparr>"

definition on :: "event_name \<Rightarrow> listener \<Rightarrow> js_state \<Rightarrow> js_state" where
  "on ev l s = s\<lparr>listeners := listeners s @ [(ev, l)]\<rparr>"

definition off :: "event_name \<Rightarrow> listener \<Rightarrow> js_state \<Rightarrow> js_state" where
  "off ev l s = s\<lparr>listeners := filter (\<lambda>x. x \<noteq> (ev, l)) (listeners s)\<rparr>"

definition settle :: "nat \<Rightarrow> promise \<Rightarrow> js_state \<Rightarrow> js_state" where
  "settle k p s =
     (if k < length (promises s) \<and> promises s ! k = Unsettled
      then s\<lparr>promises := (promises s)[k := p]\<rparr>
      else s)"

text \<open>
  \<^verbatim>\<open>
  function confirmLater(promise) {
    return new Promise((resolve, reject) => {
      promise.on('transactionHash', resolve);
      promise.on('error', reject);

      function onConfirm(confNumber, receipt) {
        promise.off('confirmation', onConfirm);
      }
      promise.on('confirmation', onConfirm);
    });
  }
  \<close>
  The result is the new promise and the state in which its executor has run.
\<close>

definition confirmLater :: "js_state \<Rightarrow> nat \<times> js_state" where
  "confirmLater s =
     (let k = length (promises s);
          s0 = s\<lparr>promises := promises s @ [Unsettled]\<rparr>;
          s1 = on ev_transactionHash (Resolve k) s0;
          s2 = on ev_error (Reject k) s1;
          s3 = on ev_confirmation (OnConfirm k) s2
      in (k, s3))"

fun event_of :: "signal \<Rightarrow> event_name" where
  "event_of (TransactionHash h) = ev_transactionHash"
| "event_of (ErrorSignal e) = ev_error"
| "event_of (Confirmation n r) = ev_confirmation"

text \<open>
  What a listener does when the emitter calls it. A listener is called with the signals of
  the event it is registered for, so the last equation is for combinations that
  \<open>confirmLater\<close> never sets up.
\<close>

fun call_listener :: "listener \<Rightarrow> signal \<Rightarrow> js_state \<Rightarrow> js_state" where
  "call_listener (Resolve k) (TransactionHash h) s = settle k (Fulfilled h) s"
| "call_listener (Reject k) (ErrorSignal e) s = settle k (Rejected e) s"
| "call_listener (OnConfirm k) (Confirmation n r) s = off ev_confirmation (OnConfirm k) s"
| "call_listener l sig s = s"

text \<open>
  \<open>emit\<close> calls the listeners registered for the event at the moment of the emission, in
  the order of their registration.
\<close>

definition emit :: "signal \<Rightarrow> js_state \<Rightarrow> js_state" where
  "emit sig s =
     fold (\<lambda>l. call_listener l sig)
       (map snd (filter (\<lambda>x. fst x = event_of sig) (listeners s))) s"

text \<open>
  The submissions that this module hands to \<open>confirmLater\<close> are those of web3's \<open>send\<close>.
  web3 signals a hash and a confirmation by \<open>emit\<close> alone; it signals an error by
  \<^verbatim>\<open>emitter.emit('error', error, optionalData); emitter.removeAllListeners();\<close>
  so that a submission has no listeners left once it has emitted an error. \<open>deliver\<close>
  lets a submission signal one after the other.
\<close>

definition removeAllListeners :: "js_state \<Rightarrow> js_state" where
  "removeAllListeners s = s\<lparr>listeners := []\<rparr>"

fun fire :: "signal \<Rightarrow> js_state \<Rightarrow> js_state" where
  "fire (ErrorSignal e) s = removeAllListeners (emit (ErrorSignal e) s)"
| "fire (TransactionHash h) s = emit (TransactionHash h) s"
| "fire (Confirmation n r) s = emit (Confirmation n r) s"

definition deliver :: "signal list \<Rightarrow> js_state \<Rightarrow> js_state" where
  "deliver sigs s = fold fire sigs s"

text \<open>\<open>await\<close> on a promise of the state.\<close>

definition await_promise :: "nat \<Rightarrow> js_state \<Rightarrow> string outcome" where
  "await_promise k s =
     (if k < length (promises s) then
        (case promises s ! k of
           Fulfilled h \<Rightarrow> Returns h
         | Rejected e \<Rightarrow> Throws e
         | Unsettled \<Rightarrow> Hangs)
      else Hangs)"

text \<open>
  \<open>await confirmLater(submission)\<close> on a submission that emits the signals \<open>sigs\<close>: the
  listeners are registered before the first signal is emitted.
\<close>

definition await_confirmLater :: "signal list \<Rightarrow> string io" where
  "await_confirmLater sigs =
     (let (k, s) = confirmLater new_submission
      in await (await_promise k (deliver sigs s)))"

subsection \<open>Read-only queries\<close>

definition native_sentinel :: string where
  "native_sentinel = ''0000000000000000000000000000000000000000''"

text \<open>
  \<^verbatim>\<open>
  async function getBalance({ chainId, address, tokenHash }) {
    try {
      const tokenBasic = store.getters.getTokenBasicByChainIdAndTokenHash({ chainId, tokenHash });
      if (tokenHash === '0000000000000000000000000000000000000000') {
        const result = await web3.eth.getBalance(address);
        return integerToDecimal(result, tokenBasic.decimals);
      }
      const tokenContract = new web3.eth.Contract(require('@/assets/json/eth-erc20.json'), tokenHash);
      const result = await tokenContract.methods.balanceOf(address).call();
      return integerToDecimal(result, tokenBasic.decimals);
    } catch (error) { throw convertWalletError(error); }
  }
  \<close>
\<close>

definition getBalance :: "env \<Rightarrow> chain_id \<Rightarrow> string \<Rightarrow> string \<Rightarrow> string io" where
  "getBalance env chainId address tokenHash =
     try_convert (
       bind_io (sync (getTokenBasicByChainIdAndTokenHash env chainId tokenHash)) (\<lambda>tokenBasic.
       if tokenHash = native_sentinel then
         bind_io (web3_eth_getBalance (web3 env) address) (\<lambda>result.
         bind_io (sync (member ''decimals'' decimals tokenBasic)) (\<lambda>d.
         sync (integerToDecimal env result d)))
       else
         bind_io (new_Contract (web3 env) Erc20 (Inr tokenHash)) (\<lambda>tokenContract.
         bind_io (method_call tokenContract ''balanceOf'' [Str address]) (\<lambda>result.
         bind_io (sync (member ''decimals'' decimals tokenBasic)) (\<lambda>d.
         sync (integerToDecimal env result d))))))"

text \<open>
  \<open>getAllowance\<close> and \<open>getTotalSupply\<close> return \<open>null\<close> (\<open>None\<close>) for the native token:
  \<^verbatim>\<open>
      const tokenBasic = store.getters.getTokenBasicByChainIdAndTokenHash({ chainId, tokenHash });
      if (tokenHash === '0000000000000000000000000000000000000000') {
        return null;
      }
      const tokenContract = new web3.eth.Contract(require('@/assets/json/eth-erc20.json'), tokenHash);
      const result = await tokenContract.methods.allowance(address, `0x${spender}`).call();
      return integerToDecimal(result, tokenBasic.decimals);
  \<close>
\<close>

definition getAllowance :: "env \<Rightarrow> chain_id \<Rightarrow> string \<Rightarrow> string \<Rightarrow> string \<Rightarrow> string option io" where
  "getAllowance env chainId address tokenHash spender =
     try_convert (
       bind_io (sync (getTokenBasicByChainIdAndTokenHash env chainId tokenHash)) (\<lambda>tokenBasic.
       if tokenHash = native_sentinel then return_io None
       else
         bind_io (new_Contract (web3 env) Erc20 (Inr tokenHash)) (\<lambda>tokenContract.
         bind_io (method_call tokenContract ''allowance'' [Str address, Str (''0x'' @ spender)]) (\<lambda>result.
         bind_io (sync (member ''decimals'' decimals tokenBasic)) (\<lambda>d.
         bind_io (sync (integerToDecimal env result d)) (\<lambda>v.
         return_io (Some v)))))))"

definition getTotalSupply :: "env \<Rightarrow> chain_id \<Rightarrow> string \<Rightarrow> string option io" where
  "getTotalSupply env chainId tokenHash =
     try_convert (
       bind_io (sync (getTokenBasicByChainIdAndTokenHash env chainId tokenHash)) (\<lambda>tokenBasic.
       if tokenHash = native_sentinel then return_io None
       else
         bind_io (new_Contract (web3 env) Erc20 (Inr tokenHash)) (\<lambda>tokenContract.
         bind_io (method_call tokenContract ''totalSupply'' []) (\<lambda>result.
         bind_io (sync (member ''decimals'' decimals tokenBasic)) (\<lambda>d.
         bind_io (sync (integerToDecimal env result d)) (\<lambda>v.
         return_io (Some v)))))))"

text \<open>
  \<^verbatim>\<open>
  async function getTransactionStatus({ transactionHash }) {
    try {
      const transactionReceipt = await web3.eth.getTransactionReceipt(`0x${transactionHash}`);
      if (transactionReceipt) {
        return transactionReceipt.status
          ? SingleTransactionStatus.Done
          : SingleTransactionStatus.Failed;
      }
      return SingleTransactionStatus.Pending;
    } catch (error) { throw convertWalletError(error); }
  }
  \<close>
\<close>

datatype SingleTransactionStatus = Pending | Done | Failed

definition getTransactionStatus :: "env \<Rightarrow> string \<Rightarrow> SingleTransactionStatus io" where
  "getTransactionStatus env transactionHash =
     try_convert (
       bind_io (web3_eth_getTransactionReceipt (web3 env) (''0x'' @ transactionHash))
         (\<lambda>transactionReceipt.
            case transactionReceipt of
              Some r \<Rightarrow> return_io (if status r then Done else Failed)
            | None \<Rightarrow> return_io Pending))"

text \<open>
  \<^verbatim>\<open>
  async function getNFTApproved({ fromChainId, tokenHash, id }) {
    try {
      const chain = store.getters.getChain(fromChainId);
      const tokenID = decimalToInteger(id, 0);
      const tokenContract = new web3.eth.Contract(require('@/assets/json/eth-erc721.json'), tokenHash);
      const result = await tokenContract.methods.getApproved(tokenID).call();
      console.log(result);
      return !(result === chain.nftLockContractHash);
    } catch (error) { throw convertWalletError(error); }
  }
  \<close>
\<close>

definition getNFTApproved :: "env \<Rightarrow> chain_id \<Rightarrow> string \<Rightarrow> string \<Rightarrow> bool io" where
  "getNFTApproved env fromChainId tokenHash id' =
     try_convert (
       bind_io (sync (getChain env fromChainId)) (\<lambda>chain.
       bind_io (sync (decimalToInteger env id' 0)) (\<lambda>tokenID.
       bind_io (new_Contract (web3 env) Erc721 (Inr tokenHash)) (\<lambda>tokenContract.
       bind_io (method_call tokenContract ''getApproved'' [Str tokenID]) (\<lambda>result.
       bind_io (perform (ConsoleLog result) (Returns ())) (\<lambda>_.
       bind_io (sync (member ''nftLockContractHash'' nftLockContractHash chain)) (\<lambda>lockHash.
       return_io (\<not> (result = lockHash)))))))))"

subsection \<open>\<open>lock\<close>\<close>

record lock_args =
  fromChainId :: chain_id
  fromAddress :: string
  fromTokenHash :: string
  toChainId :: chain_id
  toAddress :: string
  amount :: string
  fee :: string

text \<open>A JavaScript string is truthy when it is defined and not empty.\<close>

definition truthy :: "string option \<Rightarrow> bool" where
  "truthy v = (case v of None \<Rightarrow> False | Some s \<Rightarrow> s \<noteq> [])"

text \<open>
  \<^verbatim>\<open>
    try {
      const chain = store.getters.getChain(fromChainId);
      const tokenBasic = store.getters.getTokenBasicByChainIdAndTokenHash({
        chainId: fromChainId, tokenHash: fromTokenHash });
      const lockContract = new web3.eth.Contract(
        require('@/assets/json/eth-lock.json'), chain.lockContractHash);
      const toChainApi = await getChainApi(toChainId);
      const toAddressHex = toChainApi.addressToHex(toAddress);
      const amountInt = decimalToInteger(amount, tokenBasic.decimals);
      const feeInt = decimalToInteger(fee, chain.nftFeeName ? 18 : tokenBasic.decimals);
      const result = await confirmLater(
        lockContract.methods
          .lock(`0x${fromTokenHash}`, toChainId, `0x${toAddressHex}`, amountInt, feeInt, 0)
          .send({
            from: fromAddress,
            value: fromTokenHash === '0000000000000000000000000000000000000000' ? amountInt : feeInt,
          }),
      );
      return toStandardHex(result);
    } catch (error) { throw convertWalletError(error); }
  \<close>
\<close>

definition lock :: "env \<Rightarrow> lock_args \<Rightarrow> string io" where
  "lock env a =
     try_convert (
       bind_io (sync (getChain env (fromChainId a))) (\<lambda>chain.
       bind_io (sync (getTokenBasicByChainIdAndTokenHash env (fromChainId a) (fromTokenHash a))) (\<lambda>tokenBasic.
       bind_io (new_Contract (web3 env) EthLock (member ''lockContractHash'' lockContractHash chain)) (\<lambda>lockContract.
       bind_io (await (getChainApi env (toChainId a))) (\<lambda>toChainApi.
       bind_io (sync (addressToHex toChainApi (toAddress a))) (\<lambda>toAddressHex.
       bind_io (sync (member ''decimals'' decimals tokenBasic)) (\<lambda>d.
       bind_io (sync (decimalToInteger env (amount a) d)) (\<lambda>amountInt.
       bind_io (sync (member ''nftFeeName'' nftFeeName chain)) (\<lambda>feeName.
       bind_io (sync (decimalToInteger env (fee a) (if truthy feeName then 18 else d))) (\<lambda>feeInt.
       bind_io (method_send lockContract ''lock''
                  [Str (''0x'' @ fromTokenHash a), Num (toChainId a), Str (''0x'' @ toAddressHex),
                   Str amountInt, Str feeInt, Num 0]
                  \<lparr>tx_from = fromAddress a,
                   tx_value = (if fromTokenHash a = native_sentinel then amountInt else feeInt)\<rparr>)
         (\<lambda>submission.
       bind_io (await_confirmLater submission) (\<lambda>result.
       sync (toStandardHex env result)))))))))))))"

subsection \<open>Provider events\<close>

text \<open>
  The two listeners that \<open>init\<close> registers on the provider:
  \<^verbatim>\<open>
    window.BinanceChain.on('accountsChanged', async accounts => {
      const address = accounts[0] || null;
      const addressHex = await tryToConvertAddressToHex(WalletName.Binance, address);
      const checksumAddress = address && web3.utils.toChecksumAddress(address);
      store.dispatch('updateWallet', {
        name: WalletName.Binance,
        address: checksumAddress,
        addressHex,
        connected: !!checksumAddress,
      });
    });

    window.BinanceChain.on('chainChanged', network => {
      store.dispatch('updateWallet', {
        name: WalletName.Binance,
        chainId: NETWORK_CHAIN_ID_MAPS[Number(network)],
      });
    });
  \<close>
  with \<^verbatim>\<open>const NETWORK_CHAIN_ID_MAPS = { [TARGET_MAINNET ? 56 : 97]: ChainId.Bsc };\<close>
\<close>

definition NETWORK_CHAIN_ID_MAPS :: "env \<Rightarrow> nat option \<Rightarrow> chain_id option" where
  "NETWORK_CHAIN_ID_MAPS env key =
     (if key = Some (if TARGET_MAINNET env then 56 else 97) then Some (ChainId_Bsc env) else None)"

definition web3_utils_toChecksumAddress :: "web3 option \<Rightarrow> string \<Rightarrow> string io" where
  "web3_utils_toChecksumAddress w address =
     (case w of
        None \<Rightarrow> sync (Inl (type_error ''utils''))
      | Some w3 \<Rightarrow> sync (utils_toChecksumAddress w3 address))"

definition on_accountsChanged :: "env \<Rightarrow> string list \<Rightarrow> unit io" where
  "on_accountsChanged env accounts =
     (let address = (case accounts of [] \<Rightarrow> None | a # _ \<Rightarrow> if a = [] then None else Some a)
      in bind_io (await (tryToConvertAddressToHex env Binance address)) (\<lambda>addressHex.
         bind_io (case address of
                    None \<Rightarrow> return_io None
                  | Some a \<Rightarrow> bind_io (web3_utils_toChecksumAddress (web3 env) a)
                               (\<lambda>c. return_io (Some c))) (\<lambda>checksumAddress.
         perform (Dispatch \<lparr>u_name = Binance, u_installed = None,
                            u_address = Some checksumAddress,
                            u_addressHex = Some addressHex,
                            u_connected = Some (truthy checksumAddress),
                            u_chainId = None\<rparr>) (Returns ()))))"

definition on_chainChanged :: "env \<Rightarrow> string \<Rightarrow> unit io" where
  "on_chainChanged env network =
     perform (Dispatch \<lparr>u_name = Binance, u_installed = None, u_address = None,
                        u_addressHex = None, u_connected = None,
                        u_chainId = Some (NETWORK_CHAIN_ID_MAPS env (js_Number env network))\<rparr>)
       (Returns ())"

text \<open>
  Modelled from the spec: the store's wallet state is not part of the module. The spec
  gives the connection state as \<open>{ installed, connected, address, addressHex, chainId }\<close>.
\<close>

record wallet_state =
  w_installed :: bool
  w_connected :: bool
  w_address :: "string option"
  w_addressHex :: "string option"
  w_chainId :: "chain_id option"

text \<open>
  Modelled from the spec: the store action \<open>updateWallet\<close> is not part of the module. The
  spec has it take a partial state: the keys of the partial state replace the stored ones,
  the others stay.
\<close>

definition updateWallet :: "wallet_state \<Rightarrow> wallet_update \<Rightarrow> wallet_state" where
  "updateWallet st u =
     \<lparr>w_installed = (case u_installed u of None \<Rightarrow> w_installed st | Some v \<Rightarrow> v),
      w_connected = (case u_connected u of None \<Rightarrow> w_connected st | Some v \<Rightarrow> v),
      w_address = (case u_address u of None \<Rightarrow> w_address st | Some v \<Rightarrow> v),
      w_addressHex = (case u_addressHex u of None \<Rightarrow> w_addressHex st | Some v \<Rightarrow> v),
      w_chainId = (case u_chainId u of None \<Rightarrow> w_chainId st | Some v \<Rightarrow> v)\<rparr>"

text \<open>The store after the updates that a handler has dispatched, in order.\<close>

fun apply_effects :: "effect list \<Rightarrow> wallet_state \<Rightarrow> wallet_state" where
  "apply_effects [] st = st"
| "apply_effects (Dispatch u # es) st = apply_effects es (updateWallet st u)"
| "apply_effects (e # es) st = apply_effects es st"

subsection \<open>A concrete environment\<close>

text \<open>
  The theorems quantify over the collaborators. This environment gives each of them a
  value, with the convertors as the spec describes them, for the examples that come with
  the theorems.
\<close>

definition is_digit :: "char \<Rightarrow> bool" where
  "is_digit c = (c \<in> set ''0123456789'')"

definition strip_leading_zeros :: "string \<Rightarrow> string" where
  "strip_leading_zeros s =
     (let r = dropWhile (\<lambda>c. c = CHR ''0'') s in if r = [] then ''0'' else r)"

text \<open>
  Modelled from the spec: \<open>decimalToInteger\<close> of \<open>@/utils/convertors\<close> is not part of
  the module. The spec has it shift the decimal point right by \<open>decimals\<close> digits and cut
  what is left of the fraction, without rounding, and fail with \<open>FormatError\<close> on
  malformed input.
\<close>

definition decimalToInteger_spec :: "string \<Rightarrow> nat \<Rightarrow> js_error + string" where
  "decimalToInteger_spec v d =
     (let ip = takeWhile (\<lambda>c. c \<noteq> CHR ''.'') v;
          rest = dropWhile (\<lambda>c. c \<noteq> CHR ''.'') v;
          fp = tl rest
      in if ip = [] \<or> \<not> list_all is_digit ip \<or> \<not> list_all is_digit fp \<or> (rest \<noteq> [] \<and> fp = [])
         then Inl (Error ''FormatError'')
         else Inr (strip_leading_zeros (ip @ take d (fp @ replicate d (CHR ''0'')))))"

text \<open>
  Modelled from the spec: \<open>integerToDecimal\<close> of \<open>@/utils/convertors\<close> is not part of
  the module. The spec has it shift the decimal point left by \<open>decimals\<close> digits, with no
  trailing zeros and no loss of precision, and fail with \<open>FormatError\<close> on malformed input.
\<close>

definition integerToDecimal_spec :: "string \<Rightarrow> nat \<Rightarrow> js_error + string" where
  "integerToDecimal_spec v d =
     (if v = [] \<or> \<not> list_all is_digit v then Inl (Error ''FormatError'')
      else
        let p = replicate (Suc d - length v) (CHR ''0'') @ v;
            ip = take (length p - d) p;
            fp = rev (dropWhile (\<lambda>c. c = CHR ''0'') (rev (drop (length p - d) p)))
        in Inr (strip_leading_zeros ip @ (if fp = [] then [] else CHR ''.'' # fp)))"

definition example_web3 :: web3 where
  "example_web3 =
     \<lparr>eth_getBalance = (\<lambda>a. Returns ''2500000000000000000''),
      eth_getTransactionReceipt =
        (\<lambda>h. if h = ''0xaa'' then Returns (Some \<lparr>status = True\<rparr>)
              else if h = ''0xbb'' then Returns (Some \<lparr>status = False\<rparr>)
              else Returns None),
      eth_Contract = (\<lambda>a addr. None),
      methods_call = (\<lambda>a addr m args. Returns ''0xABCDEF''),
      methods_send =
        (\<lambda>a addr m args opts.
           Inr [TransactionHash ''0xfeed'', Confirmation 0 \<lparr>status = True\<rparr>,
                Confirmation 1 \<lparr>status = True\<rparr>]),
      utils_toChecksumAddress = (\<lambda>a. Inr a)\<rparr>"

definition example_env :: env where
  "example_env =
     \<lparr>web3 = Some example_web3,
      getChain =
        (\<lambda>c. Inr (Some \<lparr>lockContractHash = ''0x10c'', nftLockContractHash = ''0xabcdef'',
                          nftFeeName = None\<rparr>)),
      getTokenBasicByChainIdAndTokenHash =
        (\<lambda>c h. Inr (Some \<lparr>decimals = (if h = native_sentinel then 18 else 6)\<rparr>)),
      getChainApi = (\<lambda>c. Returns \<lparr>addressToHex = (\<lambda>a. Inr a)\<rparr>),
      integerToDecimal = integerToDecimal_spec,
      decimalToInteger = decimalToInteger_spec,
      toStandardHex = (\<lambda>h. Inr h),
      tryToConvertAddressToHex = (\<lambda>n a. Returns (map_option (drop 2) a)),
      TARGET_MAINNET = True,
      ChainId_Bsc = 6,
      js_Number = (\<lambda>s. if s = ''0x38'' then Some 56 else None)\<rparr>"

text \<open>
  Two calls of \<open>lock\<close>, of the native token and of a six-decimal token, and a chain whose
  registry entry names an NFT fee.
\<close>

definition example_native_lock :: lock_args where
  "example_native_lock =
     \<lparr>fromChainId = 6, fromAddress = ''0xme'', fromTokenHash = native_sentinel,
      toChainId = 2, toAddress = ''a1'', amount = ''1.5'', fee = ''0.01''\<rparr>"

definition example_token_lock :: lock_args where
  "example_token_lock =
     \<lparr>fromChainId = 6, fromAddress = ''0xme'', fromTokenHash = ''00aa'',
      toChainId = 2, toAddress = ''a1'', amount = ''1.5'', fee = ''0.01''\<rparr>"

definition example_nft_fee_env :: env where
  "example_nft_fee_env =
     example_env\<lparr>getChain :=
       (\<lambda>c. Inr (Some \<lparr>lockContractHash = ''0x10c'', nftLockContractHash = ''0xabcdef'',
                         nftFeeName = Some ''BNB''\<rparr>))\<rparr>"

subsection \<open>Notions used by the properties\<close>

text \<open>The effects that reach a contract: a read-only \<open>call()\<close> or a \<open>send()\<close>.\<close>

fun is_contract_call :: "effect \<Rightarrow> bool" where
  "is_contract_call (Call a addr m args) = True"
| "is_contract_call (Send a addr m args opts) = True"
| "is_contract_call e = False"

text \<open>
  How the spec words the settlement of a submission: the promise resolves with the hash
  when a \<open>transactionHash\<close> signal comes before any \<open>error\<close> signal, rejects when an
  \<open>error\<close> signal comes before any hash, and confirmations change nothing.
\<close>

fun first_settlement :: "signal list \<Rightarrow> promise" where
  "first_settlement [] = Unsettled"
| "first_settlement (TransactionHash h # sigs) = Fulfilled h"
| "first_settlement (ErrorSignal e # sigs) = Rejected e"
| "first_settlement (Confirmation n r # sigs) = first_settlement sigs"

fun is_confirmation :: "signal \<Rightarrow> bool" where
  "is_confirmation (Confirmation n r) = True"
| "is_confirmation s = False"

fun is_error :: "signal \<Rightarrow> bool" where
  "is_error (ErrorSignal e) = True"
| "is_error s = False"

section \<open>Properties\<close>

lemma startsWith_iff: "startsWith s p \<longleftrightarrow> (\<exists>r. s = p @ r)"
  by (induction s p rule: startsWith.induct) auto

lemma includes_iff: "str_includes s p \<longleftrightarrow> (\<exists>l r. s = l @ p @ r)"
proof (induction s)
  case Nil
  then show ?case by auto
next
  case (Cons c cs)
  show ?case
  proof
    assume "str_includes (c # cs) p"
    then consider "startsWith (c # cs) p" | "str_includes cs p" by auto
    then show "\<exists>l r. c # cs = l @ p @ r"
    proof cases
      case 1
      then obtain r where "c # cs = p @ r" using startsWith_iff by blast
      then have "c # cs = [] @ p @ r" by simp
      then show ?thesis by blast
    next
      case 2
      then obtain l r where "cs = l @ p @ r" using Cons.IH by blast
      then have "c # cs = (c # l) @ p @ r" by simp
      then show ?thesis by blast
    qed
  next
    assume "\<exists>l r. c # cs = l @ p @ r"
    then obtain l r where eq: "c # cs = l @ p @ r" by blast
    show "str_includes (c # cs) p"
    proof (cases l)
      case Nil
      with eq have "startsWith (c # cs) p" using startsWith_iff by auto
      then show ?thesis by simp
    next
      case (Cons a l')
      with eq have "cs = l' @ p @ r" by simp
      then have "str_includes cs p" using Cons.IH by blast
      then show ?thesis by simp
    qed
  qed
qed

subsection \<open>The effect monad\<close>

lemma bind_io_sync: "bind_io (sync r) f = (case r of Inl e \<Rightarrow> ([], Throws e) | Inr x \<Rightarrow> f x)"
  by (simp add: bind_io_def sync_def split: sum.splits)

lemma bind_io_await:
  "bind_io (await r) f =
     (case r of Returns x \<Rightarrow> f x | Throws e \<Rightarrow> ([], Throws e) | Hangs \<Rightarrow> ([], Hangs))"
  by (simp add: bind_io_def await_def split: outcome.splits)

lemma bind_io_perform:
  "bind_io (perform c r) f =
     (case r of
        Returns x \<Rightarrow> (c # fst (f x), snd (f x))
      | Throws e \<Rightarrow> ([c], Throws e)
      | Hangs \<Rightarrow> ([c], Hangs))"
  by (simp add: bind_io_def perform_def split: outcome.splits)

lemma bind_io_return: "bind_io (return_io x) f = f x"
  by (simp add: bind_io_def return_io_def)

lemma fst_try_convert: "fst (try_convert m) = fst m"
  by (simp add: try_convert_def split: outcome.splits)

lemma snd_try_convert:
  "snd (try_convert m) =
     (case snd m of
        Returns x \<Rightarrow> Returns x
      | Throws e \<Rightarrow> Throws (convertWalletError e)
      | Hangs \<Rightarrow> Hangs)"
  by (simp add: try_convert_def split: outcome.splits)

lemmas io_simps =
  bind_io_sync bind_io_await bind_io_perform bind_io_return fst_try_convert snd_try_convert

lemma bind_io_pair:
  "bind_io (tr, r) f =
     (case r of
        Returns x \<Rightarrow> (tr @ fst (f x), snd (f x))
      | Throws e \<Rightarrow> (tr, Throws e)
      | Hangs \<Rightarrow> (tr, Hangs))"
  by (simp add: bind_io_def split: outcome.splits)

lemma sync_pair:
  "sync (Inr x) = ([], Returns x)"
  "sync (Inl e) = ([], Throws e)"
  "fst (sync r) = []"
  "snd (sync r) = (case r of Inl e \<Rightarrow> Throws e | Inr x \<Rightarrow> Returns x)"
  by (simp_all add: sync_def)

lemmas io_defs = bind_io_pair sync_pair return_io_def await_def perform_def

subsection \<open>Error classification\<close>

text \<open>
  C7. A \<open>WalletError\<close> passes through \<open>convertWalletError\<close> unchanged. Any other error
  becomes a \<open>WalletError\<close> with the same message and the error itself as cause; its code
  is \<open>USER_REJECTED\<close> when the message contains "Rejected by user", otherwise
  \<open>INSUFFICIENT_FUNDS\<close> when it contains "insufficient funds", otherwise
  \<open>UNKNOWN_ERROR\<close>. Classifying twice is classifying once.
\<close>

theorem convertWalletError_classifies:
  "(instanceof_WalletError e \<longrightarrow> convertWalletError e = e) \<and>
   (\<not> instanceof_WalletError e \<longrightarrow>
      instanceof_WalletError (convertWalletError e) \<and>
      cause (convertWalletError e) = Some e \<and>
      message (convertWalletError e) = message e \<and>
      code (convertWalletError e) =
        (if \<exists>l r. message e = l @ ''Rejected by user'' @ r then USER_REJECTED
         else if \<exists>l r. message e = l @ ''insufficient funds'' @ r then INSUFFICIENT_FUNDS
         else UNKNOWN_ERROR)) \<and>
   convertWalletError (convertWalletError e) = convertWalletError e"
  by (simp add: convertWalletError_def Let_def includes_iff)

theorem convertWalletError_classifies_witness:
  "\<not> instanceof_WalletError (Error ''execution reverted: insufficient funds for gas'') \<and>
   convertWalletError (Error ''execution reverted: insufficient funds for gas'') =
     WalletError ''execution reverted: insufficient funds for gas'' INSUFFICIENT_FUNDS
       (Some (Error ''execution reverted: insufficient funds for gas'')) \<and>
   code (convertWalletError (Error ''Rejected by user: insufficient funds'')) = USER_REJECTED \<and>
   code (convertWalletError (Error ''timeout'')) = UNKNOWN_ERROR \<and>
   instanceof_WalletError (WalletError ''timeout'' UNKNOWN_ERROR None) \<and>
   convertWalletError (WalletError ''timeout'' UNKNOWN_ERROR None) =
     WalletError ''timeout'' UNKNOWN_ERROR None"
  using convertWalletError_classifies [of "Error ''execution reverted: insufficient funds for gas''"]
    convertWalletError_classifies [of "WalletError ''timeout'' UNKNOWN_ERROR None"]
  by (simp add: convertWalletError_def)

subsection \<open>Transaction status\<close>

text \<open>
  C8. With the web3 instance in place, every call of \<open>getTransactionStatus\<close> asks the node
  for the receipt of \<open>0x\<close> followed by the hash, once, and answers from that reply alone:
  \<open>Pending\<close> when there is no receipt, \<open>Done\<close> when the receipt's status is true, \<open>Failed\<close>
  when it is false. It returns only when the node has replied.
\<close>

theorem getTransactionStatus_reads_receipt:
  "web3 env = Some w \<Longrightarrow>
   fst (getTransactionStatus env h) = [GetTransactionReceipt (''0x'' @ h)] \<and>
   (eth_getTransactionReceipt w (''0x'' @ h) = Returns None \<longrightarrow>
      snd (getTransactionStatus env h) = Returns Pending) \<and>
   (\<forall>r. eth_getTransactionReceipt w (''0x'' @ h) = Returns (Some r) \<and> status r \<longrightarrow>
      snd (getTransactionStatus env h) = Returns Done) \<and>
   (\<forall>r. eth_getTransactionReceipt w (''0x'' @ h) = Returns (Some r) \<and> \<not> status r \<longrightarrow>
      snd (getTransactionStatus env h) = Returns Failed) \<and>
   (\<forall>st. snd (getTransactionStatus env h) = Returns st \<longrightarrow>
      (\<exists>r. eth_getTransactionReceipt w (''0x'' @ h) = Returns r))"
  by (auto simp: getTransactionStatus_def web3_eth_getTransactionReceipt_def io_simps return_io_def
      split: outcome.splits option.splits)

theorem getTransactionStatus_reads_receipt_witness:
  "web3 example_env = Some example_web3 \<and>
   getTransactionStatus example_env ''aa'' = ([GetTransactionReceipt ''0xaa''], Returns Done) \<and>
   getTransactionStatus example_env ''bb'' = ([GetTransactionReceipt ''0xbb''], Returns Failed) \<and>
   getTransactionStatus example_env ''cc'' = ([GetTransactionReceipt ''0xcc''], Returns Pending)"
  using getTransactionStatus_reads_receipt [of example_env example_web3 "''aa''"]
  by (simp add: example_env_def example_web3_def getTransactionStatus_def
      web3_eth_getTransactionReceipt_def io_simps return_io_def try_convert_def)

subsection \<open>Queries on the native token\<close>

text \<open>
  C5. \<open>getBalance\<close> on the native sentinel makes no contract call, whatever the
  collaborators answer. It returns \<open>v\<close> exactly when the web3 instance is in place, the
  token registry knows the token, the node returns the raw native balance of the address,
  and \<open>integerToDecimal\<close> turns that balance, at the registry's decimals, into \<open>v\<close>; the
  only request it has then made is the native balance read.
\<close>

theorem getBalance_native:
  "list_all (\<lambda>c. \<not> is_contract_call c) (fst (getBalance env cid addr native_sentinel)) \<and>
   (snd (getBalance env cid addr native_sentinel) = Returns v \<longleftrightarrow>
      (\<exists>w raw tb. web3 env = Some w \<and>
         getTokenBasicByChainIdAndTokenHash env cid native_sentinel = Inr (Some tb) \<and>
         eth_getBalance w addr = Returns raw \<and>
         integerToDecimal env raw (decimals tb) = Inr v)) \<and>
   (snd (getBalance env cid addr native_sentinel) = Returns v \<longrightarrow>
      fst (getBalance env cid addr native_sentinel) = [GetBalance addr])"
  by (auto simp: getBalance_def web3_eth_getBalance_def member_def io_simps io_defs
      split: sum.splits option.splits outcome.splits)

theorem getBalance_native_witness:
  "getBalance example_env 6 ''0xme'' native_sentinel = ([GetBalance ''0xme''], Returns ''2.5'') \<and>
   web3 example_env = Some example_web3 \<and>
   getTokenBasicByChainIdAndTokenHash example_env 6 native_sentinel = Inr (Some \<lparr>decimals = 18\<rparr>) \<and>
   eth_getBalance example_web3 ''0xme'' = Returns ''2500000000000000000'' \<and>
   integerToDecimal example_env ''2500000000000000000'' 18 = Inr ''2.5''"
  using getBalance_native [of example_env 6 "''0xme''" "''2.5''"]
  by (simp add: example_env_def example_web3_def getBalance_def web3_eth_getBalance_def member_def
      bind_io_def try_convert_def perform_def sync_def native_sentinel_def integerToDecimal_spec_def
      is_digit_def strip_leading_zeros_def Let_def)

text \<open>
  C6. When the registry lookup does not throw, \<open>getAllowance\<close> and \<open>getTotalSupply\<close> on the
  native sentinel return \<open>null\<close> without a single request to the node or a contract; in
  particular they never return the string "0".
\<close>

theorem native_allowance_and_supply_not_applicable:
  "getTokenBasicByChainIdAndTokenHash env cid native_sentinel = Inr tb \<Longrightarrow>
   getAllowance env cid addr native_sentinel spender = ([], Returns None) \<and>
   getTotalSupply env cid native_sentinel = ([], Returns None) \<and>
   snd (getAllowance env cid addr native_sentinel spender) \<noteq> Returns (Some ''0'') \<and>
   snd (getTotalSupply env cid native_sentinel) \<noteq> Returns (Some ''0'')"
  by (simp add: getAllowance_def getTotalSupply_def io_simps return_io_def try_convert_def)

theorem native_allowance_and_supply_not_applicable_witness:
  "getTokenBasicByChainIdAndTokenHash example_env 6 native_sentinel = Inr (Some \<lparr>decimals = 18\<rparr>) \<and>
   getAllowance example_env 6 ''0xme'' native_sentinel ''ff'' = ([], Returns None) \<and>
   getTotalSupply example_env 6 native_sentinel = ([], Returns None)"
  using native_allowance_and_supply_not_applicable
    [of example_env 6 "Some \<lparr>decimals = 18\<rparr>" "''0xme''" "''ff''"]
  by (simp add: example_env_def)

subsection \<open>NFT approval\<close>

text \<open>
  C10. \<open>getNFTApproved\<close> returns \<open>b\<close> exactly when every step before the comparison
  succeeds and \<open>b\<close> says that the spender \<open>r\<close> returned by \<open>getApproved\<close> differs, as a
  string, from the chain's NFT lock contract address. Nothing normalises the case of either
  string: in the example the two differ in case only, and the answer is true.
\<close>

theorem getNFTApproved_compares_exactly:
  "snd (getNFTApproved env cid tokenHash tid) = Returns b \<longleftrightarrow>
     (\<exists>w c tokenID r. web3 env = Some w \<and> getChain env cid = Inr (Some c) \<and>
        decimalToInteger env tid 0 = Inr tokenID \<and>
        eth_Contract w Erc721 tokenHash = None \<and>
        methods_call w Erc721 tokenHash ''getApproved'' [Str tokenID] = Returns r \<and>
        b = (r \<noteq> nftLockContractHash c))"
  by (auto simp: getNFTApproved_def new_Contract_def method_call_def member_def io_simps io_defs
      split: sum.splits option.splits outcome.splits)

theorem getNFTApproved_compares_exactly_witness:
  "snd (getNFTApproved example_env 6 ''00aa'' ''7'') = Returns True \<and>
   web3 example_env = Some example_web3 \<and>
   getChain example_env 6 =
     Inr (Some \<lparr>lockContractHash = ''0x10c'', nftLockContractHash = ''0xabcdef'',
                nftFeeName = None\<rparr>) \<and>
   decimalToInteger example_env ''7'' 0 = Inr ''7'' \<and>
   methods_call example_web3 Erc721 ''00aa'' ''getApproved'' [Str ''7''] = Returns ''0xABCDEF''"
  using getNFTApproved_compares_exactly [of example_env 6 "''00aa''" "''7''" True]
  by (simp add: example_env_def example_web3_def getNFTApproved_def new_Contract_def method_call_def
      member_def bind_io_def return_io_def try_convert_def perform_def sync_def
      decimalToInteger_spec_def is_digit_def strip_leading_zeros_def Let_def)

subsection \<open>Provider events\<close>

lemma accountsChanged_trace:
  "fst (on_accountsChanged env accounts) = [] \<or>
   (\<exists>a h. fst (on_accountsChanged env accounts) =
      [Dispatch \<lparr>u_name = Binance, u_installed = None, u_address = Some a,
                 u_addressHex = Some h, u_connected = Some (truthy a), u_chainId = None\<rparr>] \<and>
      (accounts = [] \<longrightarrow> a = None \<and> tryToConvertAddressToHex env Binance None = Returns h) \<and>
      (\<forall>x rest. accounts = x # rest \<and> x \<noteq> [] \<longrightarrow>
         tryToConvertAddressToHex env Binance (Some x) = Returns h \<and>
         (\<exists>w c. web3 env = Some w \<and> utils_toChecksumAddress w x = Inr c \<and> a = Some c)))"
  by (auto simp: on_accountsChanged_def web3_utils_toChecksumAddress_def io_simps io_defs Let_def
      split: sum.splits option.splits outcome.splits list.splits)

lemma accountsChanged_returns:
  "snd (on_accountsChanged env accounts) = Returns () \<Longrightarrow>
   \<exists>u. fst (on_accountsChanged env accounts) = [Dispatch u]"
  by (auto simp: on_accountsChanged_def web3_utils_toChecksumAddress_def io_simps io_defs Let_def
      split: sum.splits option.splits outcome.splits list.splits if_splits)

lemma accountsChanged_nonempty:
  assumes "accounts = x # rest" and "x \<noteq> []"
    and "tryToConvertAddressToHex env Binance (Some x) = Returns h"
    and "web3 env = Some w" and "utils_toChecksumAddress w x = Inr c"
  shows "on_accountsChanged env accounts =
     ([Dispatch \<lparr>u_name = Binance, u_installed = None, u_address = Some (Some c),
                 u_addressHex = Some h, u_connected = Some (c \<noteq> []), u_chainId = None\<rparr>],
      Returns ())"
  using assms
  by (simp add: on_accountsChanged_def web3_utils_toChecksumAddress_def io_simps io_defs truthy_def)

lemma accountsChanged_empty:
  assumes "accounts = [] \<or> (\<exists>rest. accounts = [] # rest)"
    and "tryToConvertAddressToHex env Binance None = Returns h"
  shows "on_accountsChanged env accounts =
     ([Dispatch \<lparr>u_name = Binance, u_installed = None, u_address = Some None,
                 u_addressHex = Some h, u_connected = Some False, u_chainId = None\<rparr>],
      Returns ())"
  using assms
  by (auto simp: on_accountsChanged_def io_simps io_defs truthy_def)

text \<open>
  C9. The \<open>accountsChanged\<close> listener takes the first account. For a non-empty first
  account, when the hex conversion and the checksum succeed, it dispatches one update with
  the checksum address, the hex form and \<open>connected\<close> true for a non-empty checksum
  address; for an empty list or an empty first account, when the hex conversion succeeds,
  it dispatches one update with address \<open>null\<close> and \<open>connected\<close> false. Every update it dispatches is of this form:
  it has the keys \<open>address\<close>, \<open>addressHex\<close> and \<open>connected\<close>, with \<open>connected\<close> the
  truthiness of the address, and has neither \<open>chainId\<close> nor \<open>installed\<close>. A listener that
  runs to its end has dispatched exactly one update. The stored chain id is therefore what
  it was. The \<open>chainChanged\<close> listener dispatches one update whose only key besides the
  name is \<open>chainId\<close>, so the store changes in its chain id alone.
\<close>

theorem provider_events_frame:
  "(\<forall>x rest h w c. accounts = x # rest \<and> x \<noteq> [] \<and>
      tryToConvertAddressToHex env Binance (Some x) = Returns h \<and>
      web3 env = Some w \<and> utils_toChecksumAddress w x = Inr c \<longrightarrow>
        on_accountsChanged env accounts =
          ([Dispatch \<lparr>u_name = Binance, u_installed = None, u_address = Some (Some c),
                      u_addressHex = Some h, u_connected = Some (c \<noteq> []), u_chainId = None\<rparr>],
           Returns ())) \<and>
   (\<forall>h. (accounts = [] \<or> (\<exists>rest. accounts = [] # rest)) \<and>
      tryToConvertAddressToHex env Binance None = Returns h \<longrightarrow>
        on_accountsChanged env accounts =
          ([Dispatch \<lparr>u_name = Binance, u_installed = None, u_address = Some None,
                      u_addressHex = Some h, u_connected = Some False, u_chainId = None\<rparr>],
           Returns ())) \<and>
   (\<forall>u. Dispatch u \<in> set (fst (on_accountsChanged env accounts)) \<longrightarrow>
      u_chainId u = None \<and> u_installed u = None \<and> u_addressHex u \<noteq> None \<and>
      (\<exists>a. u_address u = Some a \<and> u_connected u = Some (truthy a)) \<and>
      (accounts = [] \<longrightarrow> u_address u = Some None \<and> u_connected u = Some False) \<and>
      (\<forall>x rest. accounts = x # rest \<and> x \<noteq> [] \<longrightarrow>
         (\<exists>h w c. tryToConvertAddressToHex env Binance (Some x) = Returns h \<and>
            web3 env = Some w \<and> utils_toChecksumAddress w x = Inr c \<and>
            u_addressHex u = Some h \<and>
            u_address u = Some (Some c) \<and> u_connected u = Some (c \<noteq> [])))) \<and>
   (snd (on_accountsChanged env accounts) = Returns () \<longrightarrow>
      (\<exists>u. fst (on_accountsChanged env accounts) = [Dispatch u])) \<and>
   w_chainId (apply_effects (fst (on_accountsChanged env accounts)) st) = w_chainId st \<and>
   w_installed (apply_effects (fst (on_accountsChanged env accounts)) st) = w_installed st \<and>
   on_chainChanged env network =
     ([Dispatch \<lparr>u_name = Binance, u_installed = None, u_address = None, u_addressHex = None,
                 u_connected = None,
                 u_chainId = Some (NETWORK_CHAIN_ID_MAPS env (js_Number env network))\<rparr>],
      Returns ()) \<and>
   apply_effects (fst (on_chainChanged env network)) st =
     st\<lparr>w_chainId := NETWORK_CHAIN_ID_MAPS env (js_Number env network)\<rparr>"
proof -
  have nonempty: "\<forall>x rest h w c. accounts = x # rest \<and> x \<noteq> [] \<and>
      tryToConvertAddressToHex env Binance (Some x) = Returns h \<and>
      web3 env = Some w \<and> utils_toChecksumAddress w x = Inr c \<longrightarrow>
        on_accountsChanged env accounts =
          ([Dispatch \<lparr>u_name = Binance, u_installed = None, u_address = Some (Some c),
                      u_addressHex = Some h, u_connected = Some (c \<noteq> []), u_chainId = None\<rparr>],
           Returns ())"
    using accountsChanged_nonempty [of accounts _ _ env] by blast
  have empty: "\<forall>h. (accounts = [] \<or> (\<exists>rest. accounts = [] # rest)) \<and>
      tryToConvertAddressToHex env Binance None = Returns h \<longrightarrow>
        on_accountsChanged env accounts =
          ([Dispatch \<lparr>u_name = Binance, u_installed = None, u_address = Some None,
                      u_addressHex = Some h, u_connected = Some False, u_chainId = None\<rparr>],
           Returns ())"
    using accountsChanged_empty [of accounts env] by blast
  have frame: "w_chainId (apply_effects (fst (on_accountsChanged env accounts)) st) = w_chainId st \<and>
      w_installed (apply_effects (fst (on_accountsChanged env accounts)) st) = w_installed st"
    using accountsChanged_trace [of env accounts] by (auto simp: updateWallet_def)
  have upd: "\<forall>u. Dispatch u \<in> set (fst (on_accountsChanged env accounts)) \<longrightarrow>
      u_chainId u = None \<and> u_installed u = None \<and> u_addressHex u \<noteq> None \<and>
      (\<exists>a. u_address u = Some a \<and> u_connected u = Some (truthy a)) \<and>
      (accounts = [] \<longrightarrow> u_address u = Some None \<and> u_connected u = Some False) \<and>
      (\<forall>x rest. accounts = x # rest \<and> x \<noteq> [] \<longrightarrow>
         (\<exists>h w c. tryToConvertAddressToHex env Binance (Some x) = Returns h \<and>
            web3 env = Some w \<and> utils_toChecksumAddress w x = Inr c \<and>
            u_addressHex u = Some h \<and>
            u_address u = Some (Some c) \<and> u_connected u = Some (c \<noteq> [])))"
    using accountsChanged_trace [of env accounts] by (auto simp: truthy_def)
  have chain: "on_chainChanged env network =
     ([Dispatch \<lparr>u_name = Binance, u_installed = None, u_address = None, u_addressHex = None,
                 u_connected = None,
                 u_chainId = Some (NETWORK_CHAIN_ID_MAPS env (js_Number env network))\<rparr>],
      Returns ())"
    by (simp add: on_chainChanged_def perform_def)
  have store: "apply_effects (fst (on_chainChanged env network)) st =
     st\<lparr>w_chainId := NETWORK_CHAIN_ID_MAPS env (js_Number env network)\<rparr>"
    by (simp add: chain updateWallet_def)
  from nonempty empty frame upd chain store accountsChanged_returns [of env accounts]
  show ?thesis by blast
qed

theorem provider_events_frame_witness:
  "on_accountsChanged example_env [''0xMe'', ''0xYou''] =
     ([Dispatch \<lparr>u_name = Binance, u_installed = None, u_address = Some (Some ''0xMe''),
                 u_addressHex = Some (Some ''Me''), u_connected = Some True, u_chainId = None\<rparr>],
      Returns ()) \<and>
   apply_effects (fst (on_accountsChanged example_env [''0xMe'', ''0xYou'']))
       \<lparr>w_installed = True, w_connected = False, w_address = None,
        w_addressHex = None, w_chainId = Some 6\<rparr> =
     \<lparr>w_installed = True, w_connected = True, w_address = Some ''0xMe'',
      w_addressHex = Some ''Me'', w_chainId = Some 6\<rparr> \<and>
   on_accountsChanged example_env [] =
     ([Dispatch \<lparr>u_name = Binance, u_installed = None, u_address = Some None,
                 u_addressHex = Some None, u_connected = Some False, u_chainId = None\<rparr>],
      Returns ()) \<and>
   apply_effects (fst (on_accountsChanged example_env []))
       \<lparr>w_installed = True, w_connected = True, w_address = Some ''0xMe'',
        w_addressHex = Some ''Me'', w_chainId = Some 6\<rparr> =
     \<lparr>w_installed = True, w_connected = False, w_address = None,
      w_addressHex = None, w_chainId = Some 6\<rparr> \<and>
   apply_effects (fst (on_chainChanged example_env ''0x61''))
       \<lparr>w_installed = True, w_connected = True, w_address = Some ''0xMe'',
        w_addressHex = Some ''Me'', w_chainId = Some 6\<rparr> =
     \<lparr>w_installed = True, w_connected = True, w_address = Some ''0xMe'',
      w_addressHex = Some ''Me'', w_chainId = None\<rparr> \<and>
   apply_effects (fst (on_chainChanged example_env ''0x38''))
       \<lparr>w_installed = True, w_connected = True, w_address = Some ''0xMe'',
        w_addressHex = Some ''Me'', w_chainId = None\<rparr> =
     \<lparr>w_installed = True, w_connected = True, w_address = Some ''0xMe'',
      w_addressHex = Some ''Me'', w_chainId = Some 6\<rparr>"
proof -
  have h1: "tryToConvertAddressToHex example_env Binance (Some ''0xMe'') = Returns (Some ''Me'')"
    and h2: "web3 example_env = Some example_web3"
    and h3: "utils_toChecksumAddress example_web3 ''0xMe'' = Inr ''0xMe''"
    and h4: "tryToConvertAddressToHex example_env Binance None = Returns None"
    by (simp_all add: example_env_def example_web3_def)
  have a: "on_accountsChanged example_env [''0xMe'', ''0xYou''] =
     ([Dispatch \<lparr>u_name = Binance, u_installed = None, u_address = Some (Some ''0xMe''),
                 u_addressHex = Some (Some ''Me''), u_connected = Some True, u_chainId = None\<rparr>],
      Returns ())"
    using provider_events_frame [of "[''0xMe'', ''0xYou'']" example_env] h1 h2 h3 by simp
  have b: "on_accountsChanged example_env [] =
     ([Dispatch \<lparr>u_name = Binance, u_installed = None, u_address = Some None,
                 u_addressHex = Some None, u_connected = Some False, u_chainId = None\<rparr>],
      Returns ())"
    using provider_events_frame [of "[]" example_env] h4 by simp
  have c: "on_chainChanged example_env ''0x61'' =
     ([Dispatch \<lparr>u_name = Binance, u_installed = None, u_address = None, u_addressHex = None,
                 u_connected = None, u_chainId = Some None\<rparr>], Returns ())"
    "on_chainChanged example_env ''0x38'' =
     ([Dispatch \<lparr>u_name = Binance, u_installed = None, u_address = None, u_addressHex = None,
                 u_connected = None, u_chainId = Some (Some 6)\<rparr>], Returns ())"
    by (simp_all add: on_chainChanged_def perform_def NETWORK_CHAIN_ID_MAPS_def example_env_def)
  show ?thesis
    unfolding a b c by (simp add: updateWallet_def)
qed

subsection \<open>Submissions\<close>

lemma settle_simps:
  "listeners (settle k p s) = listeners s"
  "length (promises (settle k p s)) = length (promises s)"
  "promises (settle k p s) ! j =
     (if j = k \<and> k < length (promises s) \<and> promises s ! k = Unsettled then p else promises s ! j)"
  by (auto simp: settle_def)

lemma fold_hash:
  "listeners (fold (\<lambda>l. call_listener l (TransactionHash h)) ls s) = listeners s \<and>
   length (promises (fold (\<lambda>l. call_listener l (TransactionHash h)) ls s)) = length (promises s) \<and>
   promises (fold (\<lambda>l. call_listener l (TransactionHash h)) ls s) ! k =
     (if k < length (promises s) \<and> promises s ! k = Unsettled \<and> Resolve k \<in> set ls
      then Fulfilled h else promises s ! k)"
proof (induction ls arbitrary: s)
  case Nil
  then show ?case by simp
next
  case (Cons a ls)
  show ?case
  proof (cases a)
    case (Resolve j)
    then show ?thesis using Cons.IH [of "settle j (Fulfilled h) s"]
      by (auto simp: settle_simps)
  next
    case (Reject j)
    then show ?thesis using Cons.IH [of s] by simp
  next
    case (OnConfirm j)
    then show ?thesis using Cons.IH [of s] by simp
  qed
qed

lemma fold_error:
  "listeners (fold (\<lambda>l. call_listener l (ErrorSignal e)) ls s) = listeners s \<and>
   length (promises (fold (\<lambda>l. call_listener l (ErrorSignal e)) ls s)) = length (promises s) \<and>
   promises (fold (\<lambda>l. call_listener l (ErrorSignal e)) ls s) ! k =
     (if k < length (promises s) \<and> promises s ! k = Unsettled \<and> Reject k \<in> set ls
      then Rejected e else promises s ! k)"
proof (induction ls arbitrary: s)
  case Nil
  then show ?case by simp
next
  case (Cons a ls)
  show ?case
  proof (cases a)
    case (Resolve j)
    then show ?thesis using Cons.IH [of s] by simp
  next
    case (Reject j)
    then show ?thesis using Cons.IH [of "settle j (Rejected e) s"]
      by (auto simp: settle_simps)
  next
    case (OnConfirm j)
    then show ?thesis using Cons.IH [of s] by simp
  qed
qed

lemma fold_confirmation:
  "promises (fold (\<lambda>l. call_listener l (Confirmation n r)) ls s) = promises s \<and>
   listeners (fold (\<lambda>l. call_listener l (Confirmation n r)) ls s) =
     filter (\<lambda>x. \<not> (fst x = ev_confirmation \<and> (\<exists>j. snd x = OnConfirm j \<and> OnConfirm j \<in> set ls)))
       (listeners s)"
proof (induction ls arbitrary: s)
  case Nil
  then show ?case by simp
next
  case (Cons a ls)
  show ?case
  proof (cases a)
    case (Resolve j)
    then show ?thesis using Cons.IH [of s] by auto
  next
    case (Reject j)
    then show ?thesis using Cons.IH [of s] by auto
  next
    case (OnConfirm j)
    have "filter (\<lambda>x. \<not> (fst x = ev_confirmation \<and> (\<exists>i. snd x = OnConfirm i \<and> OnConfirm i \<in> set ls)))
            (filter (\<lambda>x. x \<noteq> (ev_confirmation, OnConfirm j)) (listeners s)) =
          filter (\<lambda>x. \<not> (fst x = ev_confirmation \<and> (\<exists>i. snd x = OnConfirm i \<and> OnConfirm i \<in> set (a # ls))))
            (listeners s)"
      unfolding filter_filter using OnConfirm
      by (intro filter_cong refl) (auto simp: prod_eq_iff)
    then show ?thesis using OnConfirm Cons.IH [of "off ev_confirmation (OnConfirm j) s"]
      by (simp add: off_def)
  qed
qed

lemma emit_hash:
  "listeners (emit (TransactionHash h) s) = listeners s \<and>
   length (promises (emit (TransactionHash h) s)) = length (promises s) \<and>
   promises (emit (TransactionHash h) s) ! k =
     (if k < length (promises s) \<and> promises s ! k = Unsettled \<and>
         (ev_transactionHash, Resolve k) \<in> set (listeners s)
      then Fulfilled h else promises s ! k)"
proof -
  have "Resolve k \<in> set (map snd (filter (\<lambda>x. fst x = ev_transactionHash) (listeners s))) \<longleftrightarrow>
        (ev_transactionHash, Resolve k) \<in> set (listeners s)"
    by force
  then show ?thesis
    using fold_hash [of h "map snd (filter (\<lambda>x. fst x = ev_transactionHash) (listeners s))" s k]
    by (simp add: emit_def)
qed

lemma emit_error:
  "listeners (emit (ErrorSignal e) s) = listeners s \<and>
   length (promises (emit (ErrorSignal e) s)) = length (promises s) \<and>
   promises (emit (ErrorSignal e) s) ! k =
     (if k < length (promises s) \<and> promises s ! k = Unsettled \<and>
         (ev_error, Reject k) \<in> set (listeners s)
      then Rejected e else promises s ! k)"
proof -
  have "Reject k \<in> set (map snd (filter (\<lambda>x. fst x = ev_error) (listeners s))) \<longleftrightarrow>
        (ev_error, Reject k) \<in> set (listeners s)"
    by force
  then show ?thesis
    using fold_error [of e "map snd (filter (\<lambda>x. fst x = ev_error) (listeners s))" s k]
    by (simp add: emit_def)
qed

lemma emit_confirmation:
  "promises (emit (Confirmation n r) s) = promises s \<and>
   listeners (emit (Confirmation n r) s) =
     filter (\<lambda>x. \<not> (fst x = ev_confirmation \<and> (\<exists>j. snd x = OnConfirm j))) (listeners s)"
proof -
  let ?ls = "map snd (filter (\<lambda>x. fst x = ev_confirmation) (listeners s))"
  have "filter (\<lambda>x. \<not> (fst x = ev_confirmation \<and> (\<exists>j. snd x = OnConfirm j \<and> OnConfirm j \<in> set ?ls)))
          (listeners s) =
        filter (\<lambda>x. \<not> (fst x = ev_confirmation \<and> (\<exists>j. snd x = OnConfirm j))) (listeners s)"
    by (intro filter_cong refl) force
  then show ?thesis using fold_confirmation [of n r ?ls s] by (simp add: emit_def)
qed


lemma fire_promise:
  assumes "k < length (promises s)"
    and "promises s ! k \<noteq> Unsettled \<or>
         ((ev_transactionHash, Resolve k) \<in> set (listeners s) \<and>
          (ev_error, Reject k) \<in> set (listeners s))"
  shows "promises (fire sig s) ! k =
           (if promises s ! k = Unsettled then first_settlement [sig] else promises s ! k)"
proof (cases sig)
  case (TransactionHash h)
  then show ?thesis using assms emit_hash [of h s k] by auto
next
  case (ErrorSignal e)
  then show ?thesis using assms emit_error [of e s k] by (auto simp: removeAllListeners_def)
next
  case (Confirmation n r)
  then show ?thesis using assms emit_confirmation [of n r s] by simp
qed

lemma fire_registered:
  assumes "k < length (promises s)"
    and "promises s ! k \<noteq> Unsettled \<or>
         ((ev_transactionHash, Resolve k) \<in> set (listeners s) \<and>
          (ev_error, Reject k) \<in> set (listeners s))"
  shows "k < length (promises (fire sig s)) \<and>
         (promises (fire sig s) ! k \<noteq> Unsettled \<or>
          ((ev_transactionHash, Resolve k) \<in> set (listeners (fire sig s)) \<and>
           (ev_error, Reject k) \<in> set (listeners (fire sig s))))"
proof (cases sig)
  case (TransactionHash h)
  then show ?thesis using assms emit_hash [of h s k] by auto
next
  case (ErrorSignal e)
  then show ?thesis using assms emit_error [of e s k] by (auto simp: removeAllListeners_def)
next
  case (Confirmation n r)
  then show ?thesis using assms emit_confirmation [of n r s] by auto
qed

lemma deliver_Cons: "deliver (sig # sigs) s = deliver sigs (fire sig s)"
  by (simp add: deliver_def)

lemma deliver_append: "deliver (sigs @ later) s = deliver later (deliver sigs s)"
  by (simp add: deliver_def)

lemma deliver_promise:
  assumes "k < length (promises s)"
    and "promises s ! k \<noteq> Unsettled \<or>
         ((ev_transactionHash, Resolve k) \<in> set (listeners s) \<and>
          (ev_error, Reject k) \<in> set (listeners s))"
  shows "promises (deliver sigs s) ! k =
           (if promises s ! k = Unsettled then first_settlement sigs else promises s ! k)"
  using assms
proof (induction sigs arbitrary: s)
  case Nil
  then show ?case by (simp add: deliver_def)
next
  case (Cons sig sigs)
  have reg: "k < length (promises (fire sig s))"
    "promises (fire sig s) ! k \<noteq> Unsettled \<or>
      ((ev_transactionHash, Resolve k) \<in> set (listeners (fire sig s)) \<and>
       (ev_error, Reject k) \<in> set (listeners (fire sig s)))"
    using fire_registered [OF Cons.prems, of sig] by blast+
  have step: "promises (fire sig s) ! k =
      (if promises s ! k = Unsettled then first_settlement [sig] else promises s ! k)"
    using fire_promise [OF Cons.prems] by blast
  have "promises (deliver sigs (fire sig s)) ! k =
      (if promises (fire sig s) ! k = Unsettled then first_settlement sigs
       else promises (fire sig s) ! k)"
    using Cons.IH [OF reg] by blast
  with step show ?case
    by (cases sig) (simp_all add: deliver_Cons)
qed

lemma deliver_registered:
  assumes "k < length (promises s)"
    and "promises s ! k \<noteq> Unsettled \<or>
         ((ev_transactionHash, Resolve k) \<in> set (listeners s) \<and>
          (ev_error, Reject k) \<in> set (listeners s))"
  shows "k < length (promises (deliver sigs s)) \<and>
         (promises (deliver sigs s) ! k \<noteq> Unsettled \<or>
          ((ev_transactionHash, Resolve k) \<in> set (listeners (deliver sigs s)) \<and>
           (ev_error, Reject k) \<in> set (listeners (deliver sigs s))))"
  using assms
proof (induction sigs arbitrary: s)
  case Nil
  then show ?case by (simp add: deliver_def)
next
  case (Cons sig sigs)
  have reg: "k < length (promises (fire sig s))"
    "promises (fire sig s) ! k \<noteq> Unsettled \<or>
      ((ev_transactionHash, Resolve k) \<in> set (listeners (fire sig s)) \<and>
       (ev_error, Reject k) \<in> set (listeners (fire sig s)))"
    using fire_registered [OF Cons.prems, of sig] by blast+
  show ?case using Cons.IH [OF reg] by (simp add: deliver_Cons)
qed

lemma fire_listeners:
  "listeners (fire sig s) =
     (if is_error sig then []
      else if is_confirmation sig
      then filter (\<lambda>x. \<not> (fst x = ev_confirmation \<and> (\<exists>j. snd x = OnConfirm j))) (listeners s)
      else listeners s)"
proof (cases sig)
  case (TransactionHash h)
  then show ?thesis using emit_hash [of h s 0] by simp
next
  case (ErrorSignal e)
  then show ?thesis by (simp add: removeAllListeners_def)
next
  case (Confirmation n r)
  then show ?thesis using emit_confirmation [of n r s] by simp
qed

lemma deliver_listeners:
  "listeners (deliver sigs s) =
     (if list_ex is_error sigs then []
      else if list_ex is_confirmation sigs
      then filter (\<lambda>x. \<not> (fst x = ev_confirmation \<and> (\<exists>j. snd x = OnConfirm j))) (listeners s)
      else listeners s)"
proof (induction sigs arbitrary: s)
  case Nil
  then show ?case by (simp add: deliver_def)
next
  case (Cons sig sigs)
  show ?case
    unfolding deliver_Cons Cons.IH fire_listeners by simp
qed

lemma confirmLater_state:
  assumes "confirmLater s0 = (k, s)"
  shows "k = length (promises s0)"
    and "promises s = promises s0 @ [Unsettled]"
    and "listeners s = listeners s0 @
           [(ev_transactionHash, Resolve k), (ev_error, Reject k), (ev_confirmation, OnConfirm k)]"
  using assms by (auto simp: confirmLater_def on_def Let_def)

text \<open>
  C2. Let \<open>confirmLater\<close> create the promise \<open>k\<close> on a submission, and let the submission
  then emit any sequence of signals. The promise ends fulfilled with the hash of the first
  \<open>transactionHash\<close> signal when that signal comes before any \<open>error\<close> signal, rejected
  with the first error when it comes before any hash, and unsettled when there is neither.
  Once settled it keeps its state under every further signal, confirmations included, and
  \<open>await\<close> returns the hash, throws the error, or never returns.
\<close>

theorem confirmLater_settles_once:
  assumes "confirmLater s0 = (k, s)"
  shows "promises (deliver sigs s) ! k = first_settlement sigs \<and>
         (promises (deliver sigs s) ! k \<noteq> Unsettled \<longrightarrow>
            promises (deliver (sigs @ later) s) ! k = promises (deliver sigs s) ! k) \<and>
         await_promise k (deliver sigs s) =
           (case first_settlement sigs of
              Fulfilled h \<Rightarrow> Returns h
            | Rejected e \<Rightarrow> Throws e
            | Unsettled \<Rightarrow> Hangs)"
proof -
  have reg: "k < length (promises s)"
      "promises s ! k \<noteq> Unsettled \<or>
        ((ev_transactionHash, Resolve k) \<in> set (listeners s) \<and>
         (ev_error, Reject k) \<in> set (listeners s))"
    and fresh: "promises s ! k = Unsettled"
    using confirmLater_state [OF assms] by (simp_all add: nth_append)
  have first: "promises (deliver sigs s) ! k = first_settlement sigs"
    using deliver_promise [OF reg] fresh by simp
  have reg': "k < length (promises (deliver sigs s))"
      "promises (deliver sigs s) ! k \<noteq> Unsettled \<or>
        ((ev_transactionHash, Resolve k) \<in> set (listeners (deliver sigs s)) \<and>
         (ev_error, Reject k) \<in> set (listeners (deliver sigs s)))"
    using deliver_registered [OF reg, of sigs] by blast+
  have once: "promises (deliver sigs s) ! k \<noteq> Unsettled \<longrightarrow>
      promises (deliver (sigs @ later) s) ! k = promises (deliver sigs s) ! k"
    using deliver_promise [OF reg', of later] by (simp add: deliver_append)
  have "await_promise k (deliver sigs s) =
      (case first_settlement sigs of
         Fulfilled h \<Rightarrow> Returns h
       | Rejected e \<Rightarrow> Throws e
       | Unsettled \<Rightarrow> Hangs)"
    using reg'(1) first by (simp add: await_promise_def)
  with first once show ?thesis by blast
qed

theorem confirmLater_settles_once_witness:
  "confirmLater new_submission =
     (0, \<lparr>listeners = [(ev_transactionHash, Resolve 0), (ev_error, Reject 0),
                        (ev_confirmation, OnConfirm 0)],
          promises = [Unsettled]\<rparr>) \<and>
   promises (deliver [Confirmation 0 \<lparr>status = True\<rparr>, TransactionHash ''0xfeed'',
                      Confirmation 1 \<lparr>status = True\<rparr>, ErrorSignal (Error ''late''),
                      TransactionHash ''0xbeef'']
               (snd (confirmLater new_submission))) ! 0 = Fulfilled ''0xfeed'' \<and>
   promises (deliver [ErrorSignal (Error ''Rejected by user''), TransactionHash ''0xbeef'']
               (snd (confirmLater new_submission))) ! 0 = Rejected (Error ''Rejected by user'')"
  using confirmLater_settles_once [of new_submission 0 "snd (confirmLater new_submission)"
      "[Confirmation 0 \<lparr>status = True\<rparr>, TransactionHash ''0xfeed'',
        Confirmation 1 \<lparr>status = True\<rparr>, ErrorSignal (Error ''late''), TransactionHash ''0xbeef'']"]
    confirmLater_settles_once [of new_submission 0 "snd (confirmLater new_submission)"
      "[ErrorSignal (Error ''Rejected by user''), TransactionHash ''0xbeef'']"]
  by (simp add: confirmLater_def new_submission_def on_def Let_def)

text \<open>
  C3, as the spec states it, fails: after the \<open>transactionHash\<close> listener has fired, the
  hash, error and confirmation listeners are all still registered.
\<close>

theorem confirmLater_listeners_counterexample:
  "listeners (deliver [TransactionHash ''0xfeed''] (snd (confirmLater new_submission))) =
     [(ev_transactionHash, Resolve 0), (ev_error, Reject 0), (ev_confirmation, OnConfirm 0)]"
  by (simp add: deliver_def emit_def confirmLater_def new_submission_def on_def settle_def Let_def)

text \<open>
  C3, amended. \<open>confirmLater\<close> registers three listeners on the submission behind those
  already there. The firing of the \<open>transactionHash\<close> listener retires nothing: while the
  submission has emitted no error, the \<open>transactionHash\<close> and \<open>error\<close> listeners stay
  registered, and the confirmation listener is registered until the first \<open>confirmation\<close>
  signal and gone after it, whether or not a hash was assigned. Once the submission has
  emitted an error it has no listeners left. No signal adds a listener.
\<close>

theorem confirmLater_listeners:
  assumes "confirmLater s0 = (k, s)"
  shows "listeners s = listeners s0 @
           [(ev_transactionHash, Resolve k), (ev_error, Reject k), (ev_confirmation, OnConfirm k)] \<and>
         (\<not> list_ex is_error sigs \<longrightarrow>
            (ev_transactionHash, Resolve k) \<in> set (listeners (deliver sigs s)) \<and>
            (ev_error, Reject k) \<in> set (listeners (deliver sigs s)) \<and>
            ((ev_confirmation, OnConfirm k) \<in> set (listeners (deliver sigs s)) \<longleftrightarrow>
               \<not> list_ex is_confirmation sigs)) \<and>
         (list_ex is_error sigs \<longrightarrow> listeners (deliver sigs s) = []) \<and>
         length (listeners (deliver sigs s)) \<le> length (listeners s0) + 3"
proof -
  note st = confirmLater_state [OF assms]
  have a: "\<not> list_ex is_error sigs \<longrightarrow>
      (ev_transactionHash, Resolve k) \<in> set (listeners (deliver sigs s)) \<and>
      (ev_error, Reject k) \<in> set (listeners (deliver sigs s)) \<and>
      ((ev_confirmation, OnConfirm k) \<in> set (listeners (deliver sigs s)) \<longleftrightarrow>
         \<not> list_ex is_confirmation sigs)"
    using st(3) by (simp add: deliver_listeners)
  have b: "list_ex is_error sigs \<longrightarrow> listeners (deliver sigs s) = []"
    by (simp add: deliver_listeners)
  have "length (listeners (deliver sigs s)) \<le> length (listeners s)"
    by (simp add: deliver_listeners)
  then have c: "length (listeners (deliver sigs s)) \<le> length (listeners s0) + 3"
    using st(3) by simp
  from st(3) a b c show ?thesis by blast
qed

theorem confirmLater_listeners_witness:
  "confirmLater new_submission =
     (0, \<lparr>listeners = [(ev_transactionHash, Resolve 0), (ev_error, Reject 0),
                        (ev_confirmation, OnConfirm 0)],
          promises = [Unsettled]\<rparr>) \<and>
   \<not> list_ex is_error [TransactionHash ''0xfeed'', Confirmation 0 \<lparr>status = True\<rparr>,
                        Confirmation 1 \<lparr>status = True\<rparr>] \<and>
   listeners (deliver [TransactionHash ''0xfeed'', Confirmation 0 \<lparr>status = True\<rparr>,
                       Confirmation 1 \<lparr>status = True\<rparr>]
                (snd (confirmLater new_submission))) =
     [(ev_transactionHash, Resolve 0), (ev_error, Reject 0)] \<and>
   listeners (deliver [Confirmation 0 \<lparr>status = True\<rparr>]
                (snd (confirmLater new_submission))) =
     [(ev_transactionHash, Resolve 0), (ev_error, Reject 0)] \<and>
   list_ex is_error [ErrorSignal (Error ''Rejected by user'')] \<and>
   listeners (deliver [ErrorSignal (Error ''Rejected by user'')]
                (snd (confirmLater new_submission))) = []"
  using confirmLater_listeners [of new_submission 0 "snd (confirmLater new_submission)"
      "[TransactionHash ''0xfeed'', Confirmation 0 \<lparr>status = True\<rparr>,
        Confirmation 1 \<lparr>status = True\<rparr>]"]
    confirmLater_listeners [of new_submission 0 "snd (confirmLater new_submission)"
      "[ErrorSignal (Error ''Rejected by user'')]"]
  by (simp add: deliver_def emit_def confirmLater_def new_submission_def on_def off_def settle_def
      removeAllListeners_def Let_def)

subsection \<open>\<open>lock\<close>: the transaction it submits\<close>

lemma fst_await_confirmLater: "fst (await_confirmLater sigs) = []"
  by (simp add: await_confirmLater_def await_def split: prod.splits)

lemma bind_io_await_confirmLater:
  "fst (bind_io (await_confirmLater sigs) f) =
     (case snd (await_confirmLater sigs) of Returns x \<Rightarrow> fst (f x) | Throws e \<Rightarrow> [] | Hangs \<Rightarrow> [])"
  by (simp add: bind_io_def fst_await_confirmLater split: outcome.splits)

lemma lock_trace:
  "fst (lock env a) = [] \<or>
   (\<exists>w c tb api hex amountInt feeInt.
      web3 env = Some w \<and>
      getChain env (fromChainId a) = Inr (Some c) \<and>
      getTokenBasicByChainIdAndTokenHash env (fromChainId a) (fromTokenHash a) = Inr (Some tb) \<and>
      getChainApi env (toChainId a) = Returns api \<and>
      addressToHex api (toAddress a) = Inr hex \<and>
      decimalToInteger env (amount a) (decimals tb) = Inr amountInt \<and>
      decimalToInteger env (fee a) (if truthy (nftFeeName c) then 18 else decimals tb) = Inr feeInt \<and>
      fst (lock env a) =
        [Send EthLock (lockContractHash c) ''lock''
           [Str (''0x'' @ fromTokenHash a), Num (toChainId a), Str (''0x'' @ hex),
            Str amountInt, Str feeInt, Num 0]
           \<lparr>tx_from = fromAddress a,
            tx_value = (if fromTokenHash a = native_sentinel then amountInt else feeInt)\<rparr>])"
  unfolding lock_def fst_try_convert
  by (auto simp: new_Contract_def method_send_def member_def io_simps io_defs
      bind_io_await_confirmLater
      split: sum.splits option.splits outcome.splits)

lemma lock_submits:
  assumes "web3 env = Some w"
    and "getChain env (fromChainId a) = Inr (Some c)"
    and "getTokenBasicByChainIdAndTokenHash env (fromChainId a) (fromTokenHash a) = Inr (Some tb)"
    and "eth_Contract w EthLock (lockContractHash c) = None"
    and "getChainApi env (toChainId a) = Returns api"
    and "addressToHex api (toAddress a) = Inr hex"
    and "decimalToInteger env (amount a) (decimals tb) = Inr amountInt"
    and "decimalToInteger env (fee a) (if truthy (nftFeeName c) then 18 else decimals tb) = Inr feeInt"
  shows "fst (lock env a) =
        [Send EthLock (lockContractHash c) ''lock''
           [Str (''0x'' @ fromTokenHash a), Num (toChainId a), Str (''0x'' @ hex),
            Str amountInt, Str feeInt, Num 0]
           \<lparr>tx_from = fromAddress a,
            tx_value = (if fromTokenHash a = native_sentinel then amountInt else feeInt)\<rparr>]"
  unfolding lock_def fst_try_convert using assms
  by (auto simp: new_Contract_def method_send_def member_def io_simps io_defs
      bind_io_await_confirmLater
      split: sum.splits option.splits outcome.splits)

lemma lock_fee_conversion_fails:
  assumes "getChain env (fromChainId a) = Inr (Some c)"
    and "getTokenBasicByChainIdAndTokenHash env (fromChainId a) (fromTokenHash a) = Inr (Some tb)"
    and "decimalToInteger env (fee a) (if truthy (nftFeeName c) then 18 else decimals tb) = Inl e"
  shows "fst (lock env a) = []"
  using lock_trace [of env a] assms by auto


lemmas lock_eval =
  lock_def new_Contract_def method_send_def member_def bind_io_def try_convert_def sync_def
  await_def perform_def return_io_def await_confirmLater_def confirmLater_def new_submission_def
  on_def off_def settle_def deliver_def emit_def removeAllListeners_def await_promise_def
  truthy_def native_sentinel_def
  decimalToInteger_spec_def is_digit_def strip_leading_zeros_def Let_def eval_nat_numeral

text \<open>
  C1. Every transaction that \<open>lock\<close> submits carries as native value the amount converted
  by \<open>decimalToInteger\<close> at the token's decimals when the source token is the native
  sentinel, and the converted fee otherwise. When the registry lookups, the contract
  construction, the address codec and both conversions succeed, \<open>lock\<close> submits exactly
  one transaction, with that value. In the example the native token is locked with amount
  "1.5" at 18 decimals and fee "0.01": the value is 1500000000000000000, not the fee.
\<close>

theorem lock_native_value:
  "(Send ab ad m args opts \<in> set (fst (lock env a)) \<longrightarrow>
      (\<exists>c tb amountInt feeInt.
         getChain env (fromChainId a) = Inr (Some c) \<and>
         getTokenBasicByChainIdAndTokenHash env (fromChainId a) (fromTokenHash a) = Inr (Some tb) \<and>
         decimalToInteger env (amount a) (decimals tb) = Inr amountInt \<and>
         decimalToInteger env (fee a) (if truthy (nftFeeName c) then 18 else decimals tb) = Inr feeInt \<and>
         tx_value opts = (if fromTokenHash a = native_sentinel then amountInt else feeInt))) \<and>
   (web3 env = Some w \<and>
    getChain env (fromChainId a) = Inr (Some c) \<and>
    getTokenBasicByChainIdAndTokenHash env (fromChainId a) (fromTokenHash a) = Inr (Some tb) \<and>
    eth_Contract w EthLock (lockContractHash c) = None \<and>
    getChainApi env (toChainId a) = Returns api \<and>
    addressToHex api (toAddress a) = Inr hex \<and>
    decimalToInteger env (amount a) (decimals tb) = Inr amountInt \<and>
    decimalToInteger env (fee a) (if truthy (nftFeeName c) then 18 else decimals tb) = Inr feeInt \<longrightarrow>
      (\<exists>args. fst (lock env a) =
         [Send EthLock (lockContractHash c) ''lock'' args
            \<lparr>tx_from = fromAddress a,
             tx_value = (if fromTokenHash a = native_sentinel then amountInt else feeInt)\<rparr>]))"
proof (intro conjI impI)
  show "\<exists>c tb amountInt feeInt.
         getChain env (fromChainId a) = Inr (Some c) \<and>
         getTokenBasicByChainIdAndTokenHash env (fromChainId a) (fromTokenHash a) = Inr (Some tb) \<and>
         decimalToInteger env (amount a) (decimals tb) = Inr amountInt \<and>
         decimalToInteger env (fee a) (if truthy (nftFeeName c) then 18 else decimals tb) = Inr feeInt \<and>
         tx_value opts = (if fromTokenHash a = native_sentinel then amountInt else feeInt)"
    if "Send ab ad m args opts \<in> set (fst (lock env a))"
  proof -
    note mem = that
    then have ne: "fst (lock env a) \<noteq> []" by auto
    from lock_trace [of env a] ne obtain w c tb api hex amountInt feeInt where
      c: "getChain env (fromChainId a) = Inr (Some c)" and
      tb: "getTokenBasicByChainIdAndTokenHash env (fromChainId a) (fromTokenHash a) = Inr (Some tb)" and
      am: "decimalToInteger env (amount a) (decimals tb) = Inr amountInt" and
      fe: "decimalToInteger env (fee a) (if truthy (nftFeeName c) then 18 else decimals tb) = Inr feeInt" and
      tr: "fst (lock env a) =
        [Send EthLock (lockContractHash c) ''lock''
           [Str (''0x'' @ fromTokenHash a), Num (toChainId a), Str (''0x'' @ hex),
            Str amountInt, Str feeInt, Num 0]
           \<lparr>tx_from = fromAddress a,
            tx_value = (if fromTokenHash a = native_sentinel then amountInt else feeInt)\<rparr>]"
      by blast
    from mem tr have "tx_value opts = (if fromTokenHash a = native_sentinel then amountInt else feeInt)"
      by simp
    with c tb am fe show ?thesis by blast
  qed
next
  assume "web3 env = Some w \<and>
    getChain env (fromChainId a) = Inr (Some c) \<and>
    getTokenBasicByChainIdAndTokenHash env (fromChainId a) (fromTokenHash a) = Inr (Some tb) \<and>
    eth_Contract w EthLock (lockContractHash c) = None \<and>
    getChainApi env (toChainId a) = Returns api \<and>
    addressToHex api (toAddress a) = Inr hex \<and>
    decimalToInteger env (amount a) (decimals tb) = Inr amountInt \<and>
    decimalToInteger env (fee a) (if truthy (nftFeeName c) then 18 else decimals tb) = Inr feeInt"
  then show "\<exists>args. fst (lock env a) =
         [Send EthLock (lockContractHash c) ''lock'' args
            \<lparr>tx_from = fromAddress a,
             tx_value = (if fromTokenHash a = native_sentinel then amountInt else feeInt)\<rparr>]"
    using lock_submits [of env w a c tb api hex amountInt feeInt] by blast
qed

theorem lock_native_value_witness:
  "fst (lock example_env example_native_lock) =
     [Send EthLock ''0x10c'' ''lock''
        [Str ''0x0000000000000000000000000000000000000000'', Num 2, Str ''0xa1'',
         Str ''1500000000000000000'', Str ''10000000000000000'', Num 0]
        \<lparr>tx_from = ''0xme'', tx_value = ''1500000000000000000''\<rparr>] \<and>
   decimalToInteger example_env ''1.5'' 18 = Inr ''1500000000000000000'' \<and>
   decimalToInteger example_env ''0.01'' 18 = Inr ''10000000000000000'' \<and>
   (\<exists>c tb amountInt feeInt.
      getChain example_env 6 = Inr (Some c) \<and>
      getTokenBasicByChainIdAndTokenHash example_env 6 native_sentinel = Inr (Some tb) \<and>
      decimalToInteger example_env ''1.5'' (decimals tb) = Inr amountInt \<and>
      decimalToInteger example_env ''0.01'' (if truthy (nftFeeName c) then 18 else decimals tb) =
        Inr feeInt \<and>
      ''1500000000000000000'' = amountInt)"
proof -
  have tr: "fst (lock example_env example_native_lock) =
     [Send EthLock ''0x10c'' ''lock''
        [Str ''0x0000000000000000000000000000000000000000'', Num 2, Str ''0xa1'',
         Str ''1500000000000000000'', Str ''10000000000000000'', Num 0]
        \<lparr>tx_from = ''0xme'', tx_value = ''1500000000000000000''\<rparr>]"
    by (simp add: example_env_def example_web3_def example_native_lock_def lock_eval)
  have d1: "decimalToInteger example_env ''1.5'' 18 = Inr ''1500000000000000000''"
    by (simp add: example_env_def lock_eval)
  have d2: "decimalToInteger example_env ''0.01'' 18 = Inr ''10000000000000000''"
    by (simp add: example_env_def lock_eval)
  have "Send EthLock ''0x10c'' ''lock''
        [Str ''0x0000000000000000000000000000000000000000'', Num 2, Str ''0xa1'',
         Str ''1500000000000000000'', Str ''10000000000000000'', Num 0]
        \<lparr>tx_from = ''0xme'', tx_value = ''1500000000000000000''\<rparr>
      \<in> set (fst (lock example_env example_native_lock))"
    unfolding tr by simp
  then have "\<exists>c tb amountInt feeInt.
      getChain example_env (fromChainId example_native_lock) = Inr (Some c) \<and>
      getTokenBasicByChainIdAndTokenHash example_env (fromChainId example_native_lock)
        (fromTokenHash example_native_lock) = Inr (Some tb) \<and>
      decimalToInteger example_env (amount example_native_lock) (decimals tb) = Inr amountInt \<and>
      decimalToInteger example_env (fee example_native_lock)
        (if truthy (nftFeeName c) then 18 else decimals tb) = Inr feeInt \<and>
      tx_value \<lparr>tx_from = ''0xme'', tx_value = ''1500000000000000000''\<rparr> =
        (if fromTokenHash example_native_lock = native_sentinel then amountInt else feeInt)"
    using lock_native_value [of EthLock "''0x10c''" "''lock''"
        "[Str ''0x0000000000000000000000000000000000000000'', Num 2, Str ''0xa1'',
          Str ''1500000000000000000'', Str ''10000000000000000'', Num 0]"
        "\<lparr>tx_from = ''0xme'', tx_value = ''1500000000000000000''\<rparr>"
        example_env example_native_lock]
    by blast
  then have "\<exists>c tb amountInt feeInt.
      getChain example_env 6 = Inr (Some c) \<and>
      getTokenBasicByChainIdAndTokenHash example_env 6 native_sentinel = Inr (Some tb) \<and>
      decimalToInteger example_env ''1.5'' (decimals tb) = Inr amountInt \<and>
      decimalToInteger example_env ''0.01'' (if truthy (nftFeeName c) then 18 else decimals tb) =
        Inr feeInt \<and>
      ''1500000000000000000'' = amountInt"
    by (simp add: example_native_lock_def)
  with tr d1 d2 show ?thesis by blast
qed


text \<open>
  C4. The fee argument of every transaction that \<open>lock\<close> submits is the fee converted by
  \<open>decimalToInteger\<close> at 18 decimals when the source chain's \<open>nftFeeName\<close> is truthy, and
  at the source token's decimals otherwise; for a token other than the native one this is
  also the native value sent. When the conversion at these decimals throws, nothing is
  submitted.
\<close>

theorem lock_fee_decimals:
  "(Send ab ad m args opts \<in> set (fst (lock env a)) \<longrightarrow>
      (\<exists>c tb feeInt.
         getChain env (fromChainId a) = Inr (Some c) \<and>
         getTokenBasicByChainIdAndTokenHash env (fromChainId a) (fromTokenHash a) = Inr (Some tb) \<and>
         decimalToInteger env (fee a) (if truthy (nftFeeName c) then 18 else decimals tb) = Inr feeInt \<and>
         args ! 4 = Str feeInt \<and>
         (fromTokenHash a \<noteq> native_sentinel \<longrightarrow> tx_value opts = feeInt))) \<and>
   (getChain env (fromChainId a) = Inr (Some c) \<and>
    getTokenBasicByChainIdAndTokenHash env (fromChainId a) (fromTokenHash a) = Inr (Some tb) \<and>
    decimalToInteger env (fee a) (if truthy (nftFeeName c) then 18 else decimals tb) = Inl e \<longrightarrow>
      fst (lock env a) = [])"
proof (intro conjI impI)
  show "\<exists>c tb feeInt.
         getChain env (fromChainId a) = Inr (Some c) \<and>
         getTokenBasicByChainIdAndTokenHash env (fromChainId a) (fromTokenHash a) = Inr (Some tb) \<and>
         decimalToInteger env (fee a) (if truthy (nftFeeName c) then 18 else decimals tb) = Inr feeInt \<and>
         args ! 4 = Str feeInt \<and>
         (fromTokenHash a \<noteq> native_sentinel \<longrightarrow> tx_value opts = feeInt)"
    if mem: "Send ab ad m args opts \<in> set (fst (lock env a))"
  proof -
    from mem have ne: "fst (lock env a) \<noteq> []" by auto
    from lock_trace [of env a] ne obtain w c tb api hex amountInt feeInt where
      c: "getChain env (fromChainId a) = Inr (Some c)" and
      tb: "getTokenBasicByChainIdAndTokenHash env (fromChainId a) (fromTokenHash a) = Inr (Some tb)" and
      fe: "decimalToInteger env (fee a) (if truthy (nftFeeName c) then 18 else decimals tb) = Inr feeInt" and
      tr: "fst (lock env a) =
        [Send EthLock (lockContractHash c) ''lock''
           [Str (''0x'' @ fromTokenHash a), Num (toChainId a), Str (''0x'' @ hex),
            Str amountInt, Str feeInt, Num 0]
           \<lparr>tx_from = fromAddress a,
            tx_value = (if fromTokenHash a = native_sentinel then amountInt else feeInt)\<rparr>]"
      by blast
    from mem tr have "args ! 4 = Str feeInt \<and>
        (fromTokenHash a \<noteq> native_sentinel \<longrightarrow> tx_value opts = feeInt)"
      by auto
    with c tb fe show ?thesis by blast
  qed
next
  assume "getChain env (fromChainId a) = Inr (Some c) \<and>
    getTokenBasicByChainIdAndTokenHash env (fromChainId a) (fromTokenHash a) = Inr (Some tb) \<and>
    decimalToInteger env (fee a) (if truthy (nftFeeName c) then 18 else decimals tb) = Inl e"
  then show "fst (lock env a) = []"
    using lock_fee_conversion_fails [of env a c tb e] by blast
qed

theorem lock_fee_decimals_witness:
  "fst (lock example_env example_token_lock) =
     [Send EthLock ''0x10c'' ''lock''
        [Str ''0x00aa'', Num 2, Str ''0xa1'', Str ''1500000'', Str ''10000'', Num 0]
        \<lparr>tx_from = ''0xme'', tx_value = ''10000''\<rparr>] \<and>
   fst (lock example_nft_fee_env example_token_lock) =
     [Send EthLock ''0x10c'' ''lock''
        [Str ''0x00aa'', Num 2, Str ''0xa1'', Str ''1500000'', Str ''10000000000000000'', Num 0]
        \<lparr>tx_from = ''0xme'', tx_value = ''10000000000000000''\<rparr>] \<and>
   decimalToInteger example_env ''0.01'' 6 = Inr ''10000'' \<and>
   decimalToInteger example_nft_fee_env ''0.01'' 18 = Inr ''10000000000000000'' \<and>
   (\<exists>c tb feeInt.
      getChain example_nft_fee_env 6 = Inr (Some c) \<and>
      getTokenBasicByChainIdAndTokenHash example_nft_fee_env 6 ''00aa'' = Inr (Some tb) \<and>
      decimalToInteger example_nft_fee_env ''0.01''
        (if truthy (nftFeeName c) then 18 else decimals tb) = Inr feeInt \<and>
      Str ''10000000000000000'' = Str feeInt)"
proof -
  have t1: "fst (lock example_env example_token_lock) =
     [Send EthLock ''0x10c'' ''lock''
        [Str ''0x00aa'', Num 2, Str ''0xa1'', Str ''1500000'', Str ''10000'', Num 0]
        \<lparr>tx_from = ''0xme'', tx_value = ''10000''\<rparr>]"
    by (simp add: example_env_def example_web3_def example_token_lock_def lock_eval)
  have t2: "fst (lock example_nft_fee_env example_token_lock) =
     [Send EthLock ''0x10c'' ''lock''
        [Str ''0x00aa'', Num 2, Str ''0xa1'', Str ''1500000'', Str ''10000000000000000'', Num 0]
        \<lparr>tx_from = ''0xme'', tx_value = ''10000000000000000''\<rparr>]"
    by (simp add: example_nft_fee_env_def example_env_def example_web3_def example_token_lock_def
        lock_eval)
  have d1: "decimalToInteger example_env ''0.01'' 6 = Inr ''10000''"
    by (simp add: example_env_def lock_eval)
  have d2: "decimalToInteger example_nft_fee_env ''0.01'' 18 = Inr ''10000000000000000''"
    by (simp add: example_nft_fee_env_def example_env_def lock_eval)
  have "Send EthLock ''0x10c'' ''lock''
        [Str ''0x00aa'', Num 2, Str ''0xa1'', Str ''1500000'', Str ''10000000000000000'', Num 0]
        \<lparr>tx_from = ''0xme'', tx_value = ''10000000000000000''\<rparr>
      \<in> set (fst (lock example_nft_fee_env example_token_lock))"
    unfolding t2 by simp
  then have "\<exists>c tb feeInt.
      getChain example_nft_fee_env (fromChainId example_token_lock) = Inr (Some c) \<and>
      getTokenBasicByChainIdAndTokenHash example_nft_fee_env (fromChainId example_token_lock)
        (fromTokenHash example_token_lock) = Inr (Some tb) \<and>
      decimalToInteger example_nft_fee_env (fee example_token_lock)
        (if truthy (nftFeeName c) then 18 else decimals tb) = Inr feeInt \<and>
      [Str ''0x00aa'', Num 2, Str ''0xa1'', Str ''1500000'', Str ''10000000000000000'', Num 0] ! 4 =
        Str feeInt \<and>
      (fromTokenHash example_token_lock \<noteq> native_sentinel \<longrightarrow>
         tx_value \<lparr>tx_from = ''0xme'', tx_value = ''10000000000000000''\<rparr> = feeInt)"
    using lock_fee_decimals [of EthLock "''0x10c''" "''lock''"
        "[Str ''0x00aa'', Num 2, Str ''0xa1'', Str ''1500000'', Str ''10000000000000000'', Num 0]"
        "\<lparr>tx_from = ''0xme'', tx_value = ''10000000000000000''\<rparr>"
        example_nft_fee_env example_token_lock]
    by blast
  then have "\<exists>c tb feeInt.
      getChain example_nft_fee_env 6 = Inr (Some c) \<and>
      getTokenBasicByChainIdAndTokenHash example_nft_fee_env 6 ''00aa'' = Inr (Some tb) \<and>
      decimalToInteger example_nft_fee_env ''0.01''
        (if truthy (nftFeeName c) then 18 else decimals tb) = Inr feeInt \<and>
      Str ''10000000000000000'' = Str feeInt"
    by (simp add: example_token_lock_def)
  with t1 t2 d1 d2 show ?thesis by blast
qed

end
